theory Spec2Isabelle
  imports Complex_Main
begin

section \<open>Values exchanged with the hosted backend\<close>

text \<open>
  The components talk to two hosted collaborators: a backend-as-a-service (object storage and
  relational tables, reached through \<^verbatim>\<open>supabase\<close>) and a completion API. Both are
  outside the repository. What the code sends is modelled as data (a request written to a
  log), what it receives is an input of the model.

  Object literals sent to the tables, and values returned by \<^verbatim>\<open>JSON.parse\<close>, are
  JavaScript values. Numbers that the code itself writes are integers.
\<close>

datatype jsval =
    JUndefined
  | JNull
  | JBool bool
  | JNum int
  | JStr string
  | JArr "jsval list"
  | JObj "(string \<times> jsval) list"

type_synonym row = "(string \<times> jsval) list"

text \<open>JavaScript truthiness, as used by \<^verbatim>\<open>if (item.file_url)\<close> and \<^verbatim>\<open>x || y\<close>.\<close>

fun truthy :: "jsval \<Rightarrow> bool" where
  "truthy JUndefined = False"
| "truthy JNull = False"
| "truthy (JBool b) = b"
| "truthy (JNum n) = (n \<noteq> 0)"
| "truthy (JStr s) = (s \<noteq> [])"
| "truthy (JArr xs) = True"
| "truthy (JObj kvs) = True"

text \<open>
  A property read \<^verbatim>\<open>v.k\<close> for the keys the code reads (none of them is a built-in
  property of strings, numbers or arrays): a TypeError on \<^verbatim>\<open>null\<close> and
  \<^verbatim>\<open>undefined\<close>, the stored value on an object, \<^verbatim>\<open>undefined\<close> otherwise.
\<close>

datatype 'a outcome = Rejected string | Resolved 'a

fun js_get :: "jsval \<Rightarrow> string \<Rightarrow> jsval outcome" where
  "js_get JUndefined k = Rejected ''TypeError''"
| "js_get JNull k = Rejected ''TypeError''"
| "js_get (JObj kvs) k = Resolved (case map_of kvs k of None \<Rightarrow> JUndefined | Some v \<Rightarrow> v)"
| "js_get v k = Resolved JUndefined"

text \<open>Column read of a returned table row (\<^verbatim>\<open>item.content_type\<close>).\<close>

definition col :: "row \<Rightarrow> string \<Rightarrow> jsval" where
  "col r k = (case map_of r k of None \<Rightarrow> JUndefined | Some v \<Rightarrow> v)"

subsection \<open>Requests and the backend\<close>

text \<open>
  The requests the code issues through the backend client: a storage upload carries the bucket,
  the path and the body (a browser \<^verbatim>\<open>File\<close> with its name, byte size and declared
  media type, or a blob built from a string); a filter is the list of
  \<^verbatim>\<open>.eq(column, value)\<close> calls chained on the request. \<^verbatim>\<open>getPublicUrl\<close> builds a URL
  without a request and is not listed.
\<close>

record File =
  file_name :: string
  file_size :: nat
  file_type :: string

datatype body = Blob string | FileBody File

datatype net_call =
    StorageUpload string string body
  | StorageRemove string "string list"
  | DbInsert string row
  | DbSelect string "(string \<times> jsval) list"
  | DbUpdate string row "(string \<times> jsval) list"

text \<open>
  How the backend answers a request: it carries the request out, or answers with an
  \<^verbatim>\<open>error\<close> object (the promise still resolves), or the promise rejects.
\<close>

datatype reply = Done | Failed string | Thrown string

text \<open>
  The backend as the components see it: the rows of each table by table name, and the log of
  every request issued so far, in order.
\<close>

record backend =
  tables :: "string \<Rightarrow> row list"
  requests :: "net_call list"

text \<open>
  The relational store is a hosted service, not code of the repository. Its contract is the
  one the specification lists among the external interfaces: \<open>insert(table, record)\<close>,
  \<open>update(table, filter, patch)\<close> and \<open>select(table, filter)\<close>. A row matches a
  filter when every filtered column holds the given value; an update overwrites the patched
  columns of the matching rows (a column whose patch value is \<^verbatim>\<open>undefined\<close> is
  dropped by the client's JSON encoding); an insert appends.
\<close>

definition matches :: "(string \<times> jsval) list \<Rightarrow> row \<Rightarrow> bool" where
  "matches flt r = list_all (\<lambda>(k, v). map_of r k = Some v) flt"

definition patch_row :: "row \<Rightarrow> row \<Rightarrow> row" where
  "patch_row patch r =
     (let p = filter (\<lambda>(k, v). v \<noteq> JUndefined) patch
      in p @ filter (\<lambda>(k, v). k \<notin> fst ` set p) r)"

fun apply_call :: "net_call \<Rightarrow> (string \<Rightarrow> row list) \<Rightarrow> (string \<Rightarrow> row list)" where
  "apply_call (DbInsert t r) T = T(t := T t @ [r])"
| "apply_call (DbUpdate t patch flt) T =
     T(t := map (\<lambda>r. if matches flt r then patch_row patch r else r) (T t))"
| "apply_call c T = T"

definition db_select :: "(string \<Rightarrow> row list) \<Rightarrow> string \<Rightarrow> (string \<times> jsval) list \<Rightarrow> row list" where
  "db_select T t flt = filter (matches flt) (T t)"

text \<open>
  Issuing a request appends it to the log; its effect on the tables takes place only when
  the backend answers \<open>Done\<close>.
\<close>

definition issue :: "reply \<Rightarrow> net_call \<Rightarrow> backend \<Rightarrow> backend" where
  "issue rp c b =
     b\<lparr>tables := (if rp = Done then apply_call c (tables b) else tables b),
       requests := requests b @ [c]\<rparr>"

text \<open>
  The environment of one component: the answer of the backend to the request issued when
  \<open>n\<close> requests are already in the log, and the reading of the clock
  (\<^verbatim>\<open>new Date().toISOString()\<close>) at that moment.
\<close>

record env =
  answer :: "nat \<Rightarrow> reply"
  clock :: "nat \<Rightarrow> string"

definition send :: "env \<Rightarrow> net_call \<Rightarrow> backend \<Rightarrow> reply \<times> backend" where
  "send E c b = (let rp = answer E (length (requests b)) in (rp, issue rp c b))"

definition now :: "env \<Rightarrow> backend \<Rightarrow> string" where
  "now E b = clock E (length (requests b))"

section \<open>Training Orchestrator (PersonaTraining.tsx)\<close>

datatype step_status = Pending | Processing | Completed | Error

record TrainingStep =
  ts_id :: string
  ts_name :: string
  ts_description :: string
  ts_status :: step_status
  ts_progress :: int

text \<open>
  The state of the component: its four \<^verbatim>\<open>useState\<close> cells, the toasts shown so far and
  the number of times \<^verbatim>\<open>onTrainingComplete\<close> was called. Progress values are integers:
  the pipeline reports integer literals and the reset writes 0. The overall progress is the
  quotient computed by the effect, a rational.
\<close>

datatype toast = ToastSuccess string | ToastError string

record training_state =
  trainingSteps :: "TrainingStep list"
  overallProgress :: rat
  isTraining :: bool
  error :: "string option"
  toasts :: "toast list"
  completions :: nat

definition initial_steps :: "TrainingStep list" where
  "initial_steps =
    [\<lparr>ts_id = ''content-analysis'', ts_name = ''Content Analysis'',
      ts_description = ''Analyzing uploaded videos, audio, and text content'',
      ts_status = Pending, ts_progress = 0\<rparr>,
     \<lparr>ts_id = ''voice-modeling'', ts_name = ''Voice Modeling'',
      ts_description = ''Creating voice synthesis model from audio samples'',
      ts_status = Pending, ts_progress = 0\<rparr>,
     \<lparr>ts_id = ''personality-extraction'', ts_name = ''Personality Extraction'',
      ts_description = ''Learning speech patterns, mannerisms, and personality traits'',
      ts_status = Pending, ts_progress = 0\<rparr>,
     \<lparr>ts_id = ''conversation-training'', ts_name = ''Conversation Training'',
      ts_description = ''Training conversational AI with extracted personality'',
      ts_status = Pending, ts_progress = 0\<rparr>,
     \<lparr>ts_id = ''final-optimization'', ts_name = ''Final Optimization'',
      ts_description = ''Optimizing model for real-time conversations'',
      ts_status = Pending, ts_progress = 0\<rparr>]"

definition initial_state :: training_state where
  "initial_state =
     \<lparr>trainingSteps = initial_steps, overallProgress = 0, isTraining = False,
      error = None, toasts = [], completions = 0\<rparr>"

definition updatePersonaStatus :: "env \<Rightarrow> string \<Rightarrow> string \<Rightarrow> int \<Rightarrow> backend \<Rightarrow> backend" where
  \<comment> \<open>the answer is ignored; a rejection is caught and only logged to the console\<close>
  "updatePersonaStatus E personaId status progress b =
     snd (send E (DbUpdate ''personas''
                    [(''status'', JStr status), (''training_progress'', JNum progress),
                     (''updated_at'', JStr (now E b))]
                    [(''id'', JStr personaId)]) b)"

text \<open>
  The effect of lines 63--76. It depends on \<^verbatim>\<open>trainingSteps\<close> and
  \<^verbatim>\<open>isTraining\<close>, so it runs after every render in which one of them changed: the model
  runs it after every update of either. The division is the source's
  \<^verbatim>\<open>totalProgress / trainingSteps.length\<close>; the list always has five entries.
\<close>

definition totalProgress :: "TrainingStep list \<Rightarrow> int" where
  "totalProgress steps = foldl (\<lambda>sum step. sum + ts_progress step) 0 steps"

definition avgProgress :: "TrainingStep list \<Rightarrow> rat" where
  "avgProgress steps = of_int (totalProgress steps) / of_nat (length steps)"

definition allCompleted :: "TrainingStep list \<Rightarrow> bool" where
  "allCompleted steps = list_all (\<lambda>step. ts_status step = Completed) steps"

definition progress_effect :: "env \<Rightarrow> string \<Rightarrow> training_state \<times> backend \<Rightarrow> training_state \<times> backend" where
  "progress_effect E personaId sb =
     (case sb of (s, b) \<Rightarrow>
        let s1 = s\<lparr>overallProgress := avgProgress (trainingSteps s)\<rparr>
        in if allCompleted (trainingSteps s1) \<and> isTraining s1
           then (s1\<lparr>isTraining := False, completions := completions s1 + 1\<rparr>,
                 updatePersonaStatus E personaId ''active'' 100 b)
           else (s1, b))"

definition setTrainingSteps ::
  "env \<Rightarrow> string \<Rightarrow> (TrainingStep list \<Rightarrow> TrainingStep list) \<Rightarrow>
   training_state \<times> backend \<Rightarrow> training_state \<times> backend" where
  "setTrainingSteps E personaId f sb =
     (case sb of (s, b) \<Rightarrow> progress_effect E personaId (s\<lparr>trainingSteps := f (trainingSteps s)\<rparr>, b))"

definition setIsTraining ::
  "env \<Rightarrow> string \<Rightarrow> bool \<Rightarrow> training_state \<times> backend \<Rightarrow> training_state \<times> backend" where
  "setIsTraining E personaId v sb =
     (case sb of (s, b) \<Rightarrow> progress_effect E personaId (s\<lparr>isTraining := v\<rparr>, b))"

text \<open>The three updaters passed to \<^verbatim>\<open>setTrainingSteps\<close>.\<close>

definition reset_steps :: "TrainingStep list \<Rightarrow> TrainingStep list" where
  "reset_steps prev = map (\<lambda>step. step\<lparr>ts_status := Pending, ts_progress := 0\<rparr>) prev"

definition report_progress :: "string \<Rightarrow> int \<Rightarrow> TrainingStep list \<Rightarrow> TrainingStep list" where
  "report_progress stepId progress prev =
     map (\<lambda>step. if ts_id step = stepId
                  then step\<lparr>ts_status := (if progress = 100 then Completed else Processing),
                            ts_progress := progress\<rparr>
                  else step) prev"

definition mark_error :: "TrainingStep list \<Rightarrow> TrainingStep list" where
  "mark_error prev =
     map (\<lambda>step. if ts_status step = Processing then step\<lparr>ts_status := Error\<rparr> else step) prev"

text \<open>The progress callback handed to the pipeline (lines 139--151).\<close>

definition onProgress ::
  "env \<Rightarrow> string \<Rightarrow> string \<Rightarrow> int \<Rightarrow> training_state \<times> backend \<Rightarrow> training_state \<times> backend" where
  "onProgress E personaId stepId progress = setTrainingSteps E personaId (report_progress stepId progress)"

text \<open>The handler of the Try Again button (lines 278--284).\<close>

definition try_again ::
  "env \<Rightarrow> string \<Rightarrow> training_state \<times> backend \<Rightarrow> training_state \<times> backend" where
  "try_again E personaId sb =
     (case sb of (s, b) \<Rightarrow>
        setTrainingSteps E personaId reset_steps (s\<lparr>error := None, overallProgress := 0\<rparr>, b))"

section \<open>External training pipeline (unnamed/part 001, imported as lib/aiTraining)\<close>

text \<open>
  Two built-ins of the language are parameters of the model: \<^verbatim>\<open>JSON.parse\<close>
  (\<open>None\<close> when it throws a SyntaxError) and the conversion of a value to a string used by
  template literals and by \<^verbatim>\<open>Array.prototype.join\<close>.
\<close>

record js =
  json_parse :: "string \<Rightarrow> jsval option"
  to_str :: "jsval \<Rightarrow> string"

text \<open>
  What the completion and transcription APIs answer during one run. A completion resolves
  to \<^verbatim>\<open>choices[0]?.message?.content\<close> (\<open>None\<close> when absent) or rejects.
  \<open>transcription\<close> stands for the download of one audio URL followed by its
  transcription, \<open>image_completion\<close> for the vision call on one image URL. The requests
  sent to these APIs are not logged: no answer depends on them.
\<close>

record ai_world =
  text_completion :: "string option outcome"
  transcription :: "jsval \<Rightarrow> string outcome"
  audio_completion :: "string option outcome"
  image_completion :: "jsval \<Rightarrow> string option outcome"
  profile_completion :: "string option outcome"

record TrainingData =
  td_text :: "jsval list"
  td_audio :: "jsval list"
  td_video :: "jsval list"
  td_images :: "jsval list"

text \<open>
  A step of the pipeline runs on the caller's state \<open>'u\<close> (changed only by the progress
  callback) and the backend; it returns a value or throws (\<open>Inl\<close> the message).
\<close>

type_synonym ('u, 'a) prog = "'u \<times> backend \<Rightarrow> (string + 'a) \<times> ('u \<times> backend)"

definition bind :: "('u, 'a) prog \<Rightarrow> ('a \<Rightarrow> ('u, 'b) prog) \<Rightarrow> ('u, 'b) prog" where
  "bind m f s = (case m s of (Inl e, s') \<Rightarrow> (Inl e, s') | (Inr a, s') \<Rightarrow> f a s')"

definition await :: "'a outcome \<Rightarrow> ('u, 'a) prog" where
  "await r s = (case r of Rejected e \<Rightarrow> (Inl e, s) | Resolved a \<Rightarrow> (Inr a, s))"

definition add_item :: "row \<Rightarrow> TrainingData \<Rightarrow> TrainingData" where
  "add_item item td =
     (let t = col item ''content_type'' in
      if t = JStr ''text'' then
        (if truthy (col item ''content_text'')
         then td\<lparr>td_text := td_text td @ [col item ''content_text'']\<rparr> else td)
      else if t = JStr ''audio'' then
        (if truthy (col item ''file_url'')
         then td\<lparr>td_audio := td_audio td @ [col item ''file_url'']\<rparr> else td)
      else if t = JStr ''video'' then
        (if truthy (col item ''file_url'')
         then td\<lparr>td_video := td_video td @ [col item ''file_url'']\<rparr> else td)
      else if t = JStr ''image'' then
        (if truthy (col item ''file_url'')
         then td\<lparr>td_images := td_images td @ [col item ''file_url'']\<rparr> else td)
      else td)"

definition content_filter :: "string \<Rightarrow> (string \<times> jsval) list" where
  "content_filter personaId =
     [(''persona_id'', JStr personaId), (''processing_status'', JStr ''completed'')]"

definition gatherTrainingData :: "env \<Rightarrow> string \<Rightarrow> ('u, TrainingData) prog" where
  "gatherTrainingData E personaId ub =
     (case ub of (u, b) \<Rightarrow>
        (case send E (DbSelect ''persona_content'' (content_filter personaId)) b of
           (Thrown e, b') \<Rightarrow> (Inl e, (u, b'))
         | (Failed e, b') \<Rightarrow> (Inl e, (u, b'))
         | (Done, b') \<Rightarrow>
             (Inr (foldl (\<lambda>td item. add_item item td)
                     \<lparr>td_text = [], td_audio = [], td_video = [], td_images = []\<rparr>
                     (db_select (tables b) ''persona_content'' (content_filter personaId))),
              (u, b'))))"

definition content_or_empty_object :: "string option \<Rightarrow> string" where
  \<comment> \<open>\<^verbatim>\<open>completion.choices[0]?.message?.content || '{}'\<close>\<close>
  "content_or_empty_object c = (case c of None \<Rightarrow> ''{}'' | Some s \<Rightarrow> if s = [] then ''{}'' else s)"

definition analyzeTextContent :: "js \<Rightarrow> ai_world \<Rightarrow> jsval list \<Rightarrow> jsval outcome" where
  "analyzeTextContent J W textData =
     (if textData = [] then Resolved JNull
      else case text_completion W of
             Rejected e \<Rightarrow> Rejected e
           | Resolved c \<Rightarrow>
               Resolved (case json_parse J (content_or_empty_object c) of
                           None \<Rightarrow> JObj [(''error'', JStr ''Failed to parse text analysis'')]
                         | Some v \<Rightarrow> v))"

definition analyzeAudioContent :: "js \<Rightarrow> ai_world \<Rightarrow> jsval list \<Rightarrow> jsval outcome" where
  "analyzeAudioContent J W audioUrls =
     (if audioUrls = [] then Resolved JNull
      else
        let transcriptions =
              concat (map (\<lambda>audioUrl. case transcription W audioUrl of
                                          Rejected e \<Rightarrow> []
                                        | Resolved t \<Rightarrow> [t]) (take 5 audioUrls))
        in if transcriptions = [] then Resolved JNull
           else case audio_completion W of
                  Rejected e \<Rightarrow> Rejected e
                | Resolved c \<Rightarrow>
                    Resolved (case json_parse J (content_or_empty_object c) of
                                None \<Rightarrow> JObj [(''error'', JStr ''Failed to parse audio analysis'')]
                              | Some v \<Rightarrow> v))"

definition analyzeVisualContent :: "ai_world \<Rightarrow> jsval list \<Rightarrow> jsval list \<Rightarrow> jsval outcome" where
  \<comment> \<open>every failure is caught per image; the video URLs are not read\<close>
  "analyzeVisualContent W imageUrls videoUrls =
     Resolved (JObj
       [(''expressions'',
           JArr (concat (map (\<lambda>imageUrl. case image_completion W imageUrl of
                                            Rejected e \<Rightarrow> []
                                          | Resolved None \<Rightarrow> []
                                          | Resolved (Some a) \<Rightarrow> if a = [] then [] else [JStr a])
                             (take 10 imageUrls)))),
        (''settings'', JArr []), (''activities'', JArr []), (''relationships'', JArr [])])"

text \<open>
  \<open>createPersonaProfile\<close>: the completion call stands before the \<^verbatim>\<open>try\<close>, so its
  rejection propagates as it is; inside the \<^verbatim>\<open>try\<close>, a failing parse, a TypeError of
  a property read and a rejected update all end in the one thrown message. The three analyses
  only enter the request sent to the completion API.
\<close>

definition createPersonaProfile ::
  "js \<Rightarrow> ai_world \<Rightarrow> env \<Rightarrow> string \<Rightarrow> jsval \<Rightarrow> jsval \<Rightarrow> jsval \<Rightarrow> ('u, jsval) prog" where
  "createPersonaProfile J W E personaId textAnalysis voiceAnalysis visualAnalysis ub =
     (case ub of (u, b) \<Rightarrow>
       (case profile_completion W of
          Rejected e \<Rightarrow> (Inl e, (u, b))
        | Resolved c \<Rightarrow>
           (case json_parse J (content_or_empty_object c) of
              None \<Rightarrow> (Inl ''Failed to create persona profile'', (u, b))
            | Some profile \<Rightarrow>
               (case (js_get profile ''personality'', js_get profile ''commonPhrases'') of
                  (Resolved personality, Resolved commonPhrases) \<Rightarrow>
                    (case send E (DbUpdate ''personas''
                                   [(''personality_traits'', personality),
                                    (''common_phrases'',
                                       if truthy commonPhrases then commonPhrases else JArr []),
                                    (''status'', JStr ''active''),
                                    (''training_progress'', JNum 100),
                                    (''updated_at'', JStr (now E b))]
                                   [(''id'', JStr personaId)]) b of
                       (Thrown e, b') \<Rightarrow> (Inl ''Failed to create persona profile'', (u, b'))
                     | (rp, b') \<Rightarrow> (Inr profile, (u, b')))
                | other \<Rightarrow> (Inl ''Failed to create persona profile'', (u, b))))))"

text \<open>
  \<open>optimizeConversationModel\<close>. \<^verbatim>\<open>x?.join(sep)\<close> inside a template literal: the text
  \<^verbatim>\<open>undefined\<close> when \<open>x\<close> is null or undefined, the joined elements when it is an
  array (null and undefined elements give the empty string), a TypeError otherwise, since
  then \<^verbatim>\<open>x.join\<close> is not a function.
\<close>

fun join_with :: "string \<Rightarrow> string list \<Rightarrow> string" where
  "join_with sep [] = []"
| "join_with sep [x] = x"
| "join_with sep (x # y # ys) = x @ sep @ join_with sep (y # ys)"

definition opt_join :: "js \<Rightarrow> jsval \<Rightarrow> string \<Rightarrow> string outcome" where
  "opt_join J x sep =
     (case x of
        JUndefined \<Rightarrow> Resolved ''undefined''
      | JNull \<Rightarrow> Resolved ''undefined''
      | JArr xs \<Rightarrow>
          Resolved (join_with sep
            (map (\<lambda>v. if v = JNull \<or> v = JUndefined then [] else to_str J v) xs))
      | other \<Rightarrow> Rejected ''TypeError'')"

definition nl :: string where
  "nl = [CHR 0x0A]"

definition and_then :: "'a outcome \<Rightarrow> ('a \<Rightarrow> 'b outcome) \<Rightarrow> 'b outcome" where
  "and_then r f = (case r of Rejected e \<Rightarrow> Rejected e | Resolved a \<Rightarrow> f a)"

definition systemPrompt :: "js \<Rightarrow> jsval \<Rightarrow> string outcome" where
  "systemPrompt J profile =
     and_then (js_get profile ''personality'') (\<lambda>personality.
     and_then (js_get profile ''speechPatterns'') (\<lambda>sp.
     and_then (opt_join J sp '', '') (\<lambda>speechPatterns.
     and_then (js_get profile ''commonPhrases'') (\<lambda>cp.
     and_then (opt_join J cp '', '') (\<lambda>commonPhrases.
     and_then (js_get profile ''emotionalTone'') (\<lambda>emotionalTone.
     and_then (js_get profile ''memories'') (\<lambda>mem.
     and_then (opt_join J mem ''; '') (\<lambda>memories.
        Resolved (concat
          [''You are embodying a specific person with these characteristics:'', nl, nl,
           ''PERSONALITY: '', to_str J personality, nl, nl,
           ''SPEECH PATTERNS: '', speechPatterns, nl, nl,
           ''COMMON PHRASES: Use these naturally in conversation: '', commonPhrases, nl, nl,
           ''EMOTIONAL TONE: '', to_str J emotionalTone, nl, nl,
           ''MEMORIES: Reference these experiences when relevant: '', memories, nl, nl,
           ''IMPORTANT: Always respond as this specific person, using their unique voice, '',
           ''mannerisms, and personality. Be authentic to their character while being helpful '',
           ''and emotionally supportive.''])))))))))"

definition optimizeConversationModel :: "js \<Rightarrow> env \<Rightarrow> string \<Rightarrow> jsval \<Rightarrow> ('u, unit) prog" where
  "optimizeConversationModel J E personaId profile ub =
     (case ub of (u, b) \<Rightarrow>
       (case systemPrompt J profile of
          Rejected e \<Rightarrow> (Inl e, (u, b))
        | Resolved prompt \<Rightarrow>
           (case js_get profile ''voiceCharacteristics'' of
              Rejected e \<Rightarrow> (Inl e, (u, b))
            | Resolved vc \<Rightarrow>
               (case send E (DbUpdate ''personas''
                              [(''metadata'',
                                 JObj (filter (\<lambda>(k, v). v \<noteq> JUndefined)
                                   [(''systemPrompt'', JStr prompt),
                                    (''trainingCompleted'', JStr (now E b)),
                                    (''voiceCharacteristics'', vc)]))]
                              [(''id'', JStr personaId)]) b of
                  (Thrown e, b') \<Rightarrow> (Inl e, (u, b'))
                | (rp, b') \<Rightarrow> (Inr (), (u, b'))))))"

text \<open>
  \<open>AITrainingPipeline.startTraining\<close> (lines 38--71). The progress callback is a
  parameter: it acts on the caller's state and, in the orchestrator, may reach the backend.
  Every failure inside the \<^verbatim>\<open>try\<close> is rethrown under one message.
\<close>

definition pipeline_startTraining ::
  "js \<Rightarrow> ai_world \<Rightarrow> env \<Rightarrow> string \<Rightarrow>
   (string \<Rightarrow> int \<Rightarrow> 'u \<times> backend \<Rightarrow> 'u \<times> backend) \<Rightarrow> ('u, jsval) prog" where
  "pipeline_startTraining J W E personaId report s0 =
     (case
        bind (\<lambda>s. gatherTrainingData E personaId (report ''content-analysis'' 10 s))
          (\<lambda>trainingData.
        bind (\<lambda>s. await (analyzeTextContent J W (td_text trainingData))
                     (report ''content-analysis'' 30 s))
          (\<lambda>textAnalysis.
        bind (\<lambda>s. await (analyzeAudioContent J W (td_audio trainingData))
                     (report ''voice-modeling'' 50 s))
          (\<lambda>voiceAnalysis.
        bind (\<lambda>s. await (analyzeVisualContent W (td_images trainingData) (td_video trainingData))
                     (report ''personality-extraction'' 70 s))
          (\<lambda>visualAnalysis.
        bind (\<lambda>s. createPersonaProfile J W E personaId textAnalysis voiceAnalysis visualAnalysis
                     (report ''conversation-training'' 85 s))
          (\<lambda>personaProfile.
        bind (\<lambda>s. optimizeConversationModel J E personaId personaProfile
                     (report ''final-optimization'' 95 s))
          (\<lambda>done. (\<lambda>s. (Inr personaProfile, report ''final-optimization'' 100 s)))))))) s0
      of
        (Inl e, s) \<Rightarrow> (Inl ''Failed to train AI persona'', s)
      | (Inr personaProfile, s) \<Rightarrow> (Inr personaProfile, s))"

definition trainPersonaFromUploadedContent ::
  "js \<Rightarrow> ai_world \<Rightarrow> env \<Rightarrow> string \<Rightarrow>
   (string \<Rightarrow> int \<Rightarrow> 'u \<times> backend \<Rightarrow> 'u \<times> backend) \<Rightarrow> ('u, jsval) prog" where
  "trainPersonaFromUploadedContent J W E personaId report =
     pipeline_startTraining J W E personaId report"

subsection \<open>Starting a training run from the component\<close>

text \<open>
  \<open>startTraining\<close> of the component (lines 125--172): the two state updates and the
  status update, the reset, the pipeline call with the callback, then the success or the
  catch branch, and the \<^verbatim>\<open>finally\<close>.
\<close>

definition add_toast :: "toast \<Rightarrow> training_state \<times> backend \<Rightarrow> training_state \<times> backend" where
  "add_toast t sb = (case sb of (s, b) \<Rightarrow> (s\<lparr>toasts := toasts s @ [t]\<rparr>, b))"

definition begin_training ::
  "env \<Rightarrow> string \<Rightarrow> training_state \<times> backend \<Rightarrow> training_state \<times> backend" where
  \<comment> \<open>lines 126--128: the request of the status update leaves before the component renders
     again and its effect runs\<close>
  "begin_training E personaId sb =
     (case sb of (s, b) \<Rightarrow>
        progress_effect E personaId
          (s\<lparr>isTraining := True, error := None\<rparr>,
           updatePersonaStatus E personaId ''training'' 0 b))"

definition training_failed ::
  "env \<Rightarrow> string \<Rightarrow> string \<Rightarrow> training_state \<times> backend \<Rightarrow> training_state \<times> backend" where
  "training_failed E personaId msg sb =
     setTrainingSteps E personaId mark_error
       (add_toast (ToastError ''Training failed. Please try again.'')
          (case sb of (s, b) \<Rightarrow> (s\<lparr>error := Some msg\<rparr>, b)))"

definition startTraining ::
  "js \<Rightarrow> ai_world \<Rightarrow> env \<Rightarrow> string \<Rightarrow> training_state \<times> backend \<Rightarrow> training_state \<times> backend" where
  "startTraining J W E personaId sb =
     (case trainPersonaFromUploadedContent J W E personaId (onProgress E personaId)
             (setTrainingSteps E personaId reset_steps (begin_training E personaId sb)) of
        (Inr profile, sb') \<Rightarrow>
          setIsTraining E personaId False
            (add_toast (ToastSuccess ''AI persona training completed successfully!'') sb')
      | (Inl msg, sb') \<Rightarrow>
          setIsTraining E personaId False (training_failed E personaId msg sb'))"

subsection \<open>The states a training session can be in\<close>

text \<open>
  Every state update of the component is one step: mounting, the steps \<open>startTraining\<close>
  is composed of, and the Try Again handler; the backend may change between two steps. The
  values a progress callback reports are percentages.
\<close>

inductive reachable :: "env \<Rightarrow> string \<Rightarrow> training_state \<times> backend \<Rightarrow> bool"
  for E :: env and personaId :: string where
  mount: "reachable E personaId (initial_state, b)"
| backend_change: "reachable E personaId (s, b) \<Longrightarrow> reachable E personaId (s, b')"
| started: "reachable E personaId sb \<Longrightarrow> reachable E personaId (begin_training E personaId sb)"
| reset: "reachable E personaId sb \<Longrightarrow>
          reachable E personaId (setTrainingSteps E personaId reset_steps sb)"
| report: "reachable E personaId sb \<Longrightarrow> 0 \<le> progress \<Longrightarrow> progress \<le> 100 \<Longrightarrow>
           reachable E personaId (onProgress E personaId stepId progress sb)"
| succeeded: "reachable E personaId sb \<Longrightarrow> reachable E personaId (add_toast t sb)"
| failed: "reachable E personaId sb \<Longrightarrow> reachable E personaId (training_failed E personaId msg sb)"
| finish: "reachable E personaId sb \<Longrightarrow> reachable E personaId (setIsTraining E personaId False sb)"
| retry: "reachable E personaId sb \<Longrightarrow> reachable E personaId (try_again E personaId sb)"

text \<open>
  The calls of the progress callback in \<open>AITrainingPipeline.startTraining\<close>, in source
  order (lines 41, 45, 49, 53, 57, 61 and 64). A run that fails stops after a prefix of them.
  Running the pipeline on a log records the calls it really makes.
\<close>

definition progress_reports :: "(string \<times> int) list" where
  "progress_reports =
     [(''content-analysis'', 10), (''content-analysis'', 30), (''voice-modeling'', 50),
      (''personality-extraction'', 70), (''conversation-training'', 85),
      (''final-optimization'', 95), (''final-optimization'', 100)]"

definition replay :: "(string \<times> int) list \<Rightarrow> TrainingStep list \<Rightarrow> TrainingStep list" where
  "replay reports steps = foldl (\<lambda>prev (stepId, progress). report_progress stepId progress prev) steps reports"

definition record_progress ::
  "string \<Rightarrow> int \<Rightarrow> (string \<times> int) list \<times> backend \<Rightarrow> (string \<times> int) list \<times> backend" where
  "record_progress stepId progress lb = (case lb of (l, b) \<Rightarrow> (l @ [(stepId, progress)], b))"

subsection \<open>Concrete inputs used in examples\<close>

definition empty_backend :: backend where
  "empty_backend = \<lparr>tables = (\<lambda>t. []), requests = []\<rparr>"

definition obliging_env :: env where
  "obliging_env = \<lparr>answer = (\<lambda>n. Done), clock = (\<lambda>n. ''2024-01-01T00:00:00.000Z'')\<rparr>"

definition example_persona :: string where
  "example_persona = ''123e4567-e89b-42d3-a456-426614174000''"

definition persona_backend :: backend where
  "persona_backend =
     \<lparr>tables = (\<lambda>t. if t = ''personas''
                       then [[(''id'', JStr example_persona), (''status'', JStr ''draft'')]]
                       else []),
      requests = []\<rparr>"

text \<open>
  A stand-in for \<^verbatim>\<open>JSON.parse\<close> that knows two inputs, the empty object and one
  complete profile, and throws on everything else.
\<close>

definition example_fields :: "(string \<times> jsval) list" where
  "example_fields =
     [(''personality'', JStr ''warm''), (''speechPatterns'', JArr [JStr ''slow'']),
      (''commonPhrases'', JArr [JStr ''well now'']), (''emotionalTone'', JStr ''calm''),
      (''memories'', JArr [JStr ''the farm''])]"

definition example_profile :: jsval where
  "example_profile = JObj example_fields"

definition example_js :: js where
  "example_js =
     \<lparr>json_parse = (\<lambda>s. if s = ''{}'' then Some (JObj [])
                          else if s = ''PROFILE'' then Some example_profile else None),
      to_str = (\<lambda>v. case v of JStr s \<Rightarrow> s | other \<Rightarrow> ''undefined'')\<rparr>"

definition quiet_world :: "string option \<Rightarrow> ai_world" where
  "quiet_world profile_reply =
     \<lparr>text_completion = Resolved None, transcription = (\<lambda>u. Rejected ''offline''),
      audio_completion = Resolved None, image_completion = (\<lambda>u. Resolved None),
      profile_completion = Resolved profile_reply\<rparr>"

section \<open>Upload Coordinator (unnamed/part 000, the FileUpload component)\<close>

text \<open>
  Strings are sequences of code units, one \<open>char\<close> each. \<open>startsWith\<close> and
  \<open>includes_str\<close> are the string methods \<^verbatim>\<open>startsWith\<close> and \<^verbatim>\<open>includes\<close>.
\<close>

definition dq :: string where
  "dq = [CHR 0x22]"

definition startsWith :: "string \<Rightarrow> string \<Rightarrow> bool" where
  "startsWith s p = (take (length p) s = p)"

fun includes_str :: "string \<Rightarrow> string \<Rightarrow> bool" where
  "includes_str [] p = (p = [])"
| "includes_str (c # cs) p = (startsWith (c # cs) p \<or> includes_str cs p)"

definition is_hex :: "char \<Rightarrow> bool" where
  "is_hex c = (c \<in> set ''0123456789abcdefABCDEF'')"

text \<open>
  The regular expression of \<open>isValidUUID\<close>, case-insensitive and anchored at both ends:
  8, 4, 4, 4 and 12 hexadecimal digits separated by hyphens, the third group starting with
  1--5 and the fourth with 8, 9, a or b.
\<close>

definition isValidUUID :: "string \<Rightarrow> bool" where
  "isValidUUID s =
     (length s = 36 \<and>
      list_all is_hex (take 8 s) \<and> s ! 8 = CHR ''-'' \<and>
      list_all is_hex (take 4 (drop 9 s)) \<and> s ! 13 = CHR ''-'' \<and>
      s ! 14 \<in> set ''12345'' \<and> list_all is_hex (take 3 (drop 15 s)) \<and> s ! 18 = CHR ''-'' \<and>
      s ! 19 \<in> set ''89abAB'' \<and> list_all is_hex (take 3 (drop 20 s)) \<and> s ! 23 = CHR ''-'' \<and>
      list_all is_hex (drop 24 s))"

definition isPersonaIdValid :: "string \<Rightarrow> bool" where
  "isPersonaIdValid personaId = (personaId \<noteq> [] \<and> isValidUUID personaId)"

definition getContentType :: "string \<Rightarrow> string" where
  "getContentType mimeType =
     (if startsWith mimeType ''video/'' then ''video''
      else if startsWith mimeType ''audio/'' then ''audio''
      else if startsWith mimeType ''image/'' then ''image''
      else if startsWith mimeType ''text/'' \<or> includes_str mimeType ''document'' then ''text''
      else ''text'')"

datatype upload_status = Uploading | InProcessing | UploadCompleted | UploadError

record UploadedFile =
  uf_id :: string
  uf_name :: string
  uf_size :: nat
  uf_type :: string
  uf_url :: string
  uf_status :: upload_status
  uf_progress :: int
  uf_error :: "string option"

text \<open>The four \<^verbatim>\<open>useState\<close> cells of the component and the toasts it has shown.\<close>

record upload_state =
  uploadedFiles :: "UploadedFile list"
  isUploading :: bool
  bucketError :: "string option"
  bucketChecked :: bool
  upload_toasts :: "toast list"

subsection \<open>The storage probe\<close>

text \<open>
  What the outside answers to one run of the probe: the text of \<^verbatim>\<open>Date.now()\<close> that
  names the test object, and the answers to the test upload and to the removal.
\<close>

record probe_world =
  probe_stamp :: string
  probe_upload :: reply
  probe_remove :: reply

definition probe_failed :: "string \<Rightarrow> upload_state \<Rightarrow> upload_state" where
  "probe_failed msg s = s\<lparr>bucketError := Some msg, bucketChecked := True\<rparr>"

definition checkAndCreateBucket ::
  "probe_world \<Rightarrow> upload_state \<times> backend \<Rightarrow> bool \<times> (upload_state \<times> backend)" where
  "checkAndCreateBucket P sb =
     (case sb of (s, b) \<Rightarrow>
       let s0 = s\<lparr>bucketChecked := False\<rparr>;
           testPath = ''test-'' @ probe_stamp P @ ''.txt'';
           b1 = issue (probe_upload P) (StorageUpload ''persona-content'' testPath (Blob ''test'')) b
       in case probe_upload P of
            Thrown e \<Rightarrow>
              (False, (probe_failed
                 ''Error testing bucket access. Please check your Supabase configuration.'' s0, b1))
          | Failed msg \<Rightarrow>
              (False, (probe_failed
                 (if includes_str msg ''permission denied''
                  then ''Permission denied. Please check your storage bucket policies.''
                  else if includes_str msg ''not found''
                  then ''Storage bucket '' @ dq @ ''persona-content'' @ dq
                       @ '' not found. Please create it manually ''
                       @ ''in your Supabase dashboard under Storage > New Bucket with a 50MB ''
                       @ ''file size limit.''
                  else ''Storage access error: '' @ msg) s0, b1))
          | Done \<Rightarrow>
              (let b2 = issue (probe_remove P) (StorageRemove ''persona-content'' [testPath]) b1
               in case probe_remove P of
                    Thrown e \<Rightarrow>
                      (False, (probe_failed
                         ''Error testing bucket access. Please check your Supabase configuration.''
                         s0, b2))
                  | other \<Rightarrow> (True, (s0\<lparr>bucketError := None, bucketChecked := True\<rparr>, b2))))"

subsection \<open>Uploading one file\<close>

text \<open>
  The error object a failed insert answers with; an absent field is the empty string.
\<close>

record db_error =
  err_message :: string
  err_details :: string
  err_hint :: string
  err_code :: string

datatype insert_reply = Inserted | InsertError db_error | InsertThrown string

text \<open>
  What the outside answers during the upload of one file: the text of \<^verbatim>\<open>Date.now()\<close>
  when \<open>uploadFile\<close> starts and when the drop handler lists the file, the probe, the
  transfer, the public URL, the clock at the insert, the insert, and the time at which the
  promise of this upload settles.
\<close>

record upload_world =
  stamp :: string
  listed_stamp :: string
  probe :: probe_world
  put_answer :: reply
  publicUrl :: string
  upload_date :: string
  insert_answer :: insert_reply
  settles_at :: nat

definition sanitize :: "string \<Rightarrow> string" where
  \<comment> \<open>\<^verbatim>\<open>file.name.replace(/[^a-zA-Z0-9.-]/g, '_')\<close>\<close>
  "sanitize name =
     map (\<lambda>c. if c \<in> set ''abcdefghijklmnopqrstuvwxyzABCDEFGHIJKLMNOPQRSTUVWXYZ0123456789.-''
                then c else CHR ''_'') name"

definition database_error_message :: "db_error \<Rightarrow> string" where
  "database_error_message dbError =
     ''Database save failed''
     @ (if err_message dbError \<noteq> [] then '': '' @ err_message dbError
        else if err_details dbError \<noteq> [] then '': '' @ err_details dbError
        else if err_hint dbError \<noteq> [] then '': '' @ err_hint dbError
        else '': Unknown database error'')
     @ (if err_code dbError = ''PGRST116'' then '' (No rows returned - check RLS policies)''
        else if err_code dbError = ''23503'' then '' (Foreign key violation - persona not found)''
        else if err_code dbError = ''42501'' then '' (Permission denied - check RLS policies)''
        else [])"

definition dbPayload :: "string \<Rightarrow> upload_world \<Rightarrow> File \<Rightarrow> row" where
  "dbPayload personaId U f =
     [(''persona_id'', JStr personaId),
      (''content_type'', JStr (getContentType (file_type f))),
      (''file_url'', JStr (publicUrl U)),
      (''file_name'', JStr (file_name f)),
      (''file_size'', JNum (int (file_size f))),
      (''metadata'', JObj [(''original_name'', JStr (file_name f)),
                           (''mime_type'', JStr (file_type f)),
                           (''upload_date'', JStr (upload_date U))]),
      (''processing_status'', JStr ''processing'')]"

definition issue_insert :: "insert_reply \<Rightarrow> net_call \<Rightarrow> backend \<Rightarrow> backend" where
  "issue_insert r c b = issue (case r of Inserted \<Rightarrow> Done
                                  | InsertError e \<Rightarrow> Failed (err_message e)
                                  | InsertThrown e \<Rightarrow> Thrown e) c b"

text \<open>
  The body of the \<^verbatim>\<open>try\<close> of \<open>uploadFile\<close> (lines 117--220): it returns the
  record as it stands when the function returns, or throws; in both cases the record carries
  the fields assigned so far, since the \<^verbatim>\<open>catch\<close> works on the same object. The
  timer set at line 210 fires later and is a step of its own.
\<close>

definition upload_steps ::
  "string \<Rightarrow> upload_world \<Rightarrow> File \<Rightarrow> UploadedFile \<Rightarrow> upload_state \<times> backend \<Rightarrow>
   (string + unit) \<times> UploadedFile \<times> (upload_state \<times> backend)" where
  "upload_steps personaId U f uploadedFile sb =
     (if file_size f > 50 * 1024 * 1024
      then (Inl ''File size exceeds 50MB limit. Please choose a smaller file.'', uploadedFile, sb)
      else if personaId = [] \<or> \<not> isValidUUID personaId
      then (Inl ''No valid persona selected. Please select a persona first.'', uploadedFile, sb)
      else
        case checkAndCreateBucket (probe U) sb of
          (False, sb1) \<Rightarrow> (Inl ''Storage bucket not available'', uploadedFile, sb1)
        | (True, (s1, b1)) \<Rightarrow>
            (let b2 = issue (put_answer U) (StorageUpload ''persona-content'' (uf_id uploadedFile) (FileBody f)) b1
             in case put_answer U of
                  Thrown e \<Rightarrow> (Inl e, uploadedFile, (s1, b2))
                | Failed msg \<Rightarrow> (Inl (''Upload failed: '' @ msg), uploadedFile, (s1, b2))
                | Done \<Rightarrow>
                    (let stored = uploadedFile\<lparr>uf_url := publicUrl U, uf_status := InProcessing,
                                               uf_progress := 50\<rparr>;
                         b3 = issue_insert (insert_answer U)
                                (DbInsert ''persona-content'' (dbPayload personaId U f)) b2
                     in case insert_answer U of
                          InsertThrown e \<Rightarrow> (Inl e, stored, (s1, b3))
                        | InsertError dbError \<Rightarrow>
                            (Inl (database_error_message dbError), stored, (s1, b3))
                        | Inserted \<Rightarrow> (Inr (), stored, (s1, b3)))))"

text \<open>
  The record both \<open>uploadFile\<close> (lines 104--115) and the drop handler (lines 259--267)
  create for a file: the identifier is the text of \<^verbatim>\<open>Date.now()\<close>, a hyphen and the
  sanitized name.
\<close>

definition new_upload :: "string \<Rightarrow> File \<Rightarrow> UploadedFile" where
  "new_upload now_text f =
     \<lparr>uf_id = now_text @ ''-'' @ sanitize (file_name f), uf_name = file_name f,
      uf_size = file_size f, uf_type = file_type f, uf_url = [], uf_status = Uploading,
      uf_progress = 0, uf_error = None\<rparr>"

definition add_upload_toast :: "toast \<Rightarrow> upload_state \<times> backend \<Rightarrow> upload_state \<times> backend" where
  "add_upload_toast t sb = (case sb of (s, b) \<Rightarrow> (s\<lparr>upload_toasts := upload_toasts s @ [t]\<rparr>, b))"

text \<open>
  \<open>uploadFile\<close> with its \<^verbatim>\<open>catch\<close>: the promise it returns is the outcome
  (\<open>Resolved\<close> with the record, \<open>Rejected\<close> if it could reject).
\<close>

definition uploadFile ::
  "string \<Rightarrow> upload_world \<Rightarrow> File \<Rightarrow> upload_state \<times> backend \<Rightarrow>
   UploadedFile outcome \<times> (upload_state \<times> backend)" where
  "uploadFile personaId U f sb =
     (case upload_steps personaId U f (new_upload (stamp U) f) sb of
        (Inr u, returned, sb') \<Rightarrow> (Resolved returned, sb')
      | (Inl msg, reached, sb') \<Rightarrow>
          (Resolved (reached\<lparr>uf_status := UploadError, uf_progress := 0, uf_error := Some msg\<rparr>),
           add_upload_toast (ToastError (''Upload failed: '' @ msg)) sb'))"

text \<open>The timer of lines 210--218, two seconds after a successful upload.\<close>

definition upload_timer_fires :: "UploadedFile \<Rightarrow> upload_state \<times> backend \<Rightarrow> upload_state \<times> backend" where
  "upload_timer_fires uploadedFile sb =
     (let finished = uploadedFile\<lparr>uf_status := UploadCompleted, uf_progress := 100\<rparr>
      in add_upload_toast
           (ToastSuccess (''File '' @ dq @ uf_name uploadedFile @ dq @ '' uploaded successfully!''))
           (case sb of (s, b) \<Rightarrow>
              (s\<lparr>uploadedFiles := map (\<lambda>f. if uf_id f = uf_id finished then finished else f)
                                       (uploadedFiles s)\<rparr>, b)))"

subsection \<open>Dropping a batch\<close>

text \<open>
  \<^verbatim>\<open>Promise.all\<close> over promises given with the times at which they settle: it rejects as
  soon as the first of them rejects, with that reason, and otherwise resolves once all have
  resolved, with their values in order. \<open>started\<close> is the time of the call.
\<close>

fun first_rejection :: "(nat \<times> 'a outcome) list \<Rightarrow> (nat \<times> string) option" where
  "first_rejection [] = None"
| "first_rejection ((t, Resolved a) # ps) = first_rejection ps"
| "first_rejection ((t, Rejected e) # ps) =
     (case first_rejection ps of
        None \<Rightarrow> Some (t, e)
      | Some (t', e') \<Rightarrow> if t' < t then Some (t', e') else Some (t, e))"

fun fulfilled :: "'a outcome list \<Rightarrow> 'a list" where
  "fulfilled [] = []"
| "fulfilled (Resolved a # rs) = a # fulfilled rs"
| "fulfilled (Rejected e # rs) = fulfilled rs"

definition promise_all :: "nat \<Rightarrow> (nat \<times> 'a outcome) list \<Rightarrow> nat \<times> 'a list outcome" where
  "promise_all started ps =
     (case first_rejection ps of
        Some (t, e) \<Rightarrow> (max started t, Rejected e)
      | None \<Rightarrow> (foldr max (map fst ps) started, Resolved (fulfilled (map snd ps))))"

text \<open>
  What the outside answers during one drop: the time at which the handler sets the
  indicator, the probe the handler may run itself, and the answers to the upload of the
  \<open>i\<close>-th valid file of the batch.
\<close>

record drop_world =
  dropped_at :: nat
  drop_probe :: probe_world
  file_world :: "nat \<Rightarrow> upload_world"

text \<open>
  The uploads of a batch are started in list order and interleave at their awaits. The model
  runs them one after the other, which is one of the possible schedules, and takes the batch
  to join before any of the two-second timers fires. Each upload comes with the time at which
  its promise settles.
\<close>

fun run_uploads ::
  "string \<Rightarrow> (nat \<Rightarrow> upload_world) \<Rightarrow> nat \<Rightarrow> File list \<Rightarrow> upload_state \<times> backend \<Rightarrow>
   (nat \<times> UploadedFile outcome) list \<times> (upload_state \<times> backend)" where
  "run_uploads personaId W i [] sb = ([], sb)"
| "run_uploads personaId W i (f # fs) sb =
     (case uploadFile personaId (W i) f sb of
        (r, sb1) \<Rightarrow>
          (case run_uploads personaId W (Suc i) fs sb1 of
             (rs, sb2) \<Rightarrow> ((settles_at (W i), r) # rs, sb2)))"

definition too_large :: "File \<Rightarrow> bool" where
  "too_large f = (file_size f > 50 * 1024 * 1024)"

definition too_large_toast :: "File \<Rightarrow> toast" where
  "too_large_toast f = ToastError (''File '' @ file_name f @ '' is too large. Maximum size is 50MB.'')"

definition setIsUploading :: "bool \<Rightarrow> upload_state \<times> backend \<Rightarrow> upload_state \<times> backend" where
  "setIsUploading v sb = (case sb of (s, b) \<Rightarrow> (s\<lparr>isUploading := v\<rparr>, b))"

definition listed :: "(nat \<Rightarrow> upload_world) \<Rightarrow> File list \<Rightarrow> UploadedFile list" where
  "listed W validFiles =
     map (\<lambda>(i, f). new_upload (listed_stamp (W i)) f) (enumerate 0 validFiles)"

definition merge_results :: "UploadedFile list \<Rightarrow> UploadedFile list \<Rightarrow> UploadedFile list" where
  "merge_results results prev =
     map (\<lambda>file. case find (\<lambda>r. uf_id r = uf_id file) results of
                    Some result \<Rightarrow> result
                  | None \<Rightarrow> file) prev"

text \<open>
  The result of a drop: the component and the backend afterwards, and the writes to the
  \<open>isUploading\<close> indicator with their times, in order. The call of
  \<^verbatim>\<open>onUploadComplete\<close> is left out.
\<close>

record drop_result =
  after_drop :: "upload_state \<times> backend"
  indicator :: "(nat \<times> bool) list"

text \<open>
  The handler in the order of the source: the persona check (line 233), the probe when no
  result is cached (238), the indicator (242), the size filter with its warnings (245), the
  early return (254), the listing of the new files (259), the uploads and their join (272),
  and the \<^verbatim>\<open>finally\<close> (287).
\<close>

definition drop_checked :: "drop_world \<Rightarrow> upload_state \<times> backend \<Rightarrow> upload_state \<times> backend" where
  "drop_checked D sb =
     (if \<not> bucketChecked (fst sb) then snd (checkAndCreateBucket (drop_probe D) sb) else sb)"

definition drop_warned :: "File list \<Rightarrow> upload_state \<times> backend \<Rightarrow> upload_state \<times> backend" where
  "drop_warned acceptedFiles sb =
     foldl (\<lambda>acc f. add_upload_toast (too_large_toast f) acc) sb (filter too_large acceptedFiles)"

definition validFiles :: "File list \<Rightarrow> File list" where
  "validFiles acceptedFiles = filter (\<lambda>f. \<not> too_large f) acceptedFiles"

definition drop_listed ::
  "drop_world \<Rightarrow> File list \<Rightarrow> upload_state \<times> backend \<Rightarrow> upload_state \<times> backend" where
  "drop_listed D valid sb =
     (case sb of (s, b) \<Rightarrow>
        (s\<lparr>uploadedFiles := uploadedFiles s @ listed (file_world D) valid\<rparr>, b))"

definition drop_joined ::
  "drop_world \<Rightarrow> (nat \<times> UploadedFile outcome) list \<times> (upload_state \<times> backend) \<Rightarrow> drop_result" where
  "drop_joined D run =
     (case run of (settled, (s5, b5)) \<Rightarrow>
        (case promise_all (dropped_at D) settled of
           (t, Resolved results) \<Rightarrow>
             \<lparr>after_drop =
                setIsUploading False
                  (s5\<lparr>uploadedFiles := merge_results results (uploadedFiles s5)\<rparr>, b5),
              indicator = [(dropped_at D, True), (t, False)]\<rparr>
         | (t, Rejected e) \<Rightarrow>
             \<lparr>after_drop =
                setIsUploading False
                  (add_upload_toast (ToastError ''Some files failed to upload. Please try again.'')
                     (s5, b5)),
              indicator = [(dropped_at D, True), (t, False)]\<rparr>))"

definition onDrop :: "string \<Rightarrow> drop_world \<Rightarrow> File list \<Rightarrow> upload_state \<times> backend \<Rightarrow> drop_result" where
  "onDrop personaId D acceptedFiles sb =
     (if \<not> isPersonaIdValid personaId
      then \<lparr>after_drop =
              add_upload_toast (ToastError ''Please select a persona before uploading files'') sb,
            indicator = []\<rparr>
      else
        let warned = drop_warned acceptedFiles (setIsUploading True (drop_checked D sb))
        in if validFiles acceptedFiles = []
           then \<lparr>after_drop = setIsUploading False warned,
                 indicator = [(dropped_at D, True), (dropped_at D, False)]\<rparr>
           else drop_joined D
                  (run_uploads personaId (file_world D) 0 (validFiles acceptedFiles)
                     (drop_listed D (validFiles acceptedFiles) warned)))"

text \<open>The probes in a request log: the uploads of the test blob.\<close>

fun is_probe :: "net_call \<Rightarrow> bool" where
  "is_probe (StorageUpload bucket path (Blob content)) = True"
| "is_probe c = False"

section \<open>Conversation Session (ConversationInterface.tsx)\<close>

datatype sender = User | Persona

record Message =
  msg_id :: string
  sender_type :: sender
  content :: string
  timestamp :: string
  message_type :: string

text \<open>
  The engine is code of \<^verbatim>\<open>lib/ai\<close>, which is not among the sources: a loaded engine is
  taken as the function from the user's message to the reply its
  \<^verbatim>\<open>generateResponse\<close> resolves to, or to its rejection.
\<close>

type_synonym engine = "string \<Rightarrow> string outcome"

record conversation_state =
  messages :: "Message list"
  inputMessage :: string
  conversationId :: "string option"
  isTyping :: bool
  aiEngine :: "engine option"

definition fallback_reply :: string where
  "fallback_reply =
     ''I'm still learning about this persona. Please complete the AI training for more ''
     @ ''personalized responses.''"

definition generatePersonaResponse :: "engine option \<Rightarrow> string \<Rightarrow> string outcome" where
  "generatePersonaResponse engine userMessage =
     (case engine of
        Some generateResponse \<Rightarrow> generateResponse userMessage
      | None \<Rightarrow> Resolved fallback_reply)"

text \<open>
  \<^verbatim>\<open>!inputMessage.trim()\<close>: the message consists of white space only. Among the code
  units below 256 these are tab, line feed, vertical tab, form feed, carriage return, space
  and the no-break space.
\<close>

definition is_blank :: "string \<Rightarrow> bool" where
  "is_blank s =
     list_all (\<lambda>c. c \<in> set [CHR 0x09, CHR 0x0A, CHR 0x0B, CHR 0x0C, CHR 0x0D, CHR 0x20, CHR 0xA0]) s"

text \<open>
  What the outside answers during one \<open>sendMessage\<close>: the texts of
  \<^verbatim>\<open>Date.now()\<close> and \<^verbatim>\<open>Date.now() + 1\<close>, the two clock readings and the answers to
  the two inserts.
\<close>

record send_world =
  user_stamp :: string
  persona_stamp :: string
  user_time :: string
  persona_time :: string
  user_insert :: reply
  persona_insert :: reply

definition message_row :: "string \<Rightarrow> string \<Rightarrow> string \<Rightarrow> row" where
  "message_row cid who text' =
     [(''conversation_id'', JStr cid), (''sender_type'', JStr who), (''content'', JStr text'),
      (''message_type'', JStr ''text''), (''metadata'', JObj [])]"

definition sendMessage :: "send_world \<Rightarrow> conversation_state \<times> backend \<Rightarrow> conversation_state \<times> backend" where
  "sendMessage W sb =
     (case sb of (s, b) \<Rightarrow>
       (case conversationId s of
          None \<Rightarrow> (s, b)
        | Some cid \<Rightarrow>
            if is_blank (inputMessage s) \<or> cid = [] then (s, b)
            else
              let userMessage = \<lparr>msg_id = user_stamp W, sender_type = User,
                                 content = inputMessage s, timestamp = user_time W,
                                 message_type = ''text''\<rparr>;
                  s1 = s\<lparr>messages := messages s @ [userMessage], inputMessage := [],
                         isTyping := True\<rparr>;
                  b1 = issue (user_insert W)
                         (DbInsert ''messages'' (message_row cid ''user'' (inputMessage s))) b
              in case user_insert W of
                   Thrown e \<Rightarrow> (s1\<lparr>isTyping := False\<rparr>, b1)
                 | other \<Rightarrow>
                    (case generatePersonaResponse (aiEngine s) (inputMessage s) of
                       Rejected e \<Rightarrow> (s1\<lparr>isTyping := False\<rparr>, b1)
                     | Resolved aiResponse \<Rightarrow>
                         (s1\<lparr>messages := messages s1 @
                               [\<lparr>msg_id = persona_stamp W, sender_type = Persona,
                                 content = aiResponse, timestamp = persona_time W,
                                 message_type = ''text''\<rparr>],
                             isTyping := False\<rparr>,
                          issue (persona_insert W)
                            (DbInsert ''messages'' (message_row cid ''persona'' aiResponse)) b1))))"

section \<open>Concrete inputs for the upload and conversation components\<close>

definition fresh_upload_state :: upload_state where
  \<comment> \<open>the state at mount: nothing uploaded, no probe result yet\<close>
  "fresh_upload_state =
     \<lparr>uploadedFiles = [], isUploading = False, bucketError = None, bucketChecked = False,
      upload_toasts = []\<rparr>"

definition probed_upload_state :: upload_state where
  \<comment> \<open>the state after a probe that found the bucket writable\<close>
  "probed_upload_state = fresh_upload_state\<lparr>bucketChecked := True\<rparr>"

definition note_file :: File where
  "note_file = \<lparr>file_name = ''note.txt'', file_size = 2048, file_type = ''text/plain''\<rparr>"

definition big_file :: File where
  "big_file = \<lparr>file_name = ''big.mp4'', file_size = 60 * 1024 * 1024, file_type = ''video/mp4''\<rparr>"

definition obliging_probe :: probe_world where
  "obliging_probe = \<lparr>probe_stamp = ''1700000000000'', probe_upload = Done, probe_remove = Done\<rparr>"

definition obliging_upload :: upload_world where
  "obliging_upload =
     \<lparr>stamp = ''1700000000001'', listed_stamp = ''1700000000001'', probe = obliging_probe,
      put_answer = Done, publicUrl = ''https://storage.example/persona-content/note'',
      upload_date = ''2024-01-01T00:00:00.000Z'', insert_answer = Inserted, settles_at = 7\<rparr>"

definition refusing_upload :: upload_world where
  \<comment> \<open>the transfer of this file is refused; its promise settles late\<close>
  "refusing_upload =
     obliging_upload\<lparr>stamp := ''1700000000002'', listed_stamp := ''1700000000002'',
                      put_answer := Failed ''quota exceeded'', settles_at := 9\<rparr>"

definition obliging_drop :: drop_world where
  "obliging_drop =
     \<lparr>dropped_at = 3, drop_probe = obliging_probe,
      file_world = (\<lambda>i. if i = 0 then obliging_upload else refusing_upload)\<rparr>"

definition untrained_chat :: conversation_state where
  "untrained_chat =
     \<lparr>messages = [], inputMessage = ''hello'', conversationId = Some ''c1'', isTyping = False,
      aiEngine = None\<rparr>"

definition obliging_send :: send_world where
  "obliging_send =
     \<lparr>user_stamp = ''1700000000005'', persona_stamp = ''1700000000006'',
      user_time = ''2024-01-01T00:00:05.000Z'', persona_time = ''2024-01-01T00:00:06.000Z'',
      user_insert = Done, persona_insert = Done\<rparr>"

section \<open>Predicates used in the proofs\<close>

text \<open>The request a run of the probe starts with.\<close>

definition probe_call :: "probe_world \<Rightarrow> net_call" where
  "probe_call P =
     StorageUpload ''persona-content'' (''test-'' @ probe_stamp P @ ''.txt'') (Blob ''test'')"

text \<open>Two states of the upload component and the backend that differ in the toasts at most.\<close>

definition same_but_toasts :: "upload_state \<times> backend \<Rightarrow> upload_state \<times> backend \<Rightarrow> bool" where
  "same_but_toasts sb sb' =
     (snd sb = snd sb' \<and> uploadedFiles (fst sb) = uploadedFiles (fst sb') \<and>
      isUploading (fst sb) = isUploading (fst sb') \<and>
      bucketError (fst sb) = bucketError (fst sb') \<and>
      bucketChecked (fst sb) = bucketChecked (fst sb'))"


text \<open>
  A stage is consistent when its progress is a percentage and it is completed exactly when
  the progress is 100; the stages keep the identity of the five initial ones.
\<close>

definition stage_ok :: "TrainingStep \<Rightarrow> bool" where
  "stage_ok st = (0 \<le> ts_progress st \<and> ts_progress st \<le> 100 \<and>
                  (ts_status st = Completed \<longleftrightarrow> ts_progress st = 100))"

definition same_identity :: "TrainingStep list \<Rightarrow> bool" where
  "same_identity steps =
     (map (\<lambda>st. (ts_id st, ts_name st, ts_description st)) steps =
      map (\<lambda>st. (ts_id st, ts_name st, ts_description st)) initial_steps)"

definition session_inv :: "training_state \<times> backend \<Rightarrow> bool" where
  "session_inv sb = (same_identity (trainingSteps (fst sb)) \<and>
                     list_all stage_ok (trainingSteps (fst sb)) \<and>
                     overallProgress (fst sb) = avgProgress (trainingSteps (fst sb)))"

text \<open>The component state after the first \<open>k\<close> reports of a run that started from \<open>s0\<close>.\<close>

definition after_reports :: "nat \<Rightarrow> training_state \<Rightarrow> training_state \<times> backend \<Rightarrow> bool" where
  "after_reports k s0 sb =
     (fst sb = s0\<lparr>trainingSteps := replay (take k progress_reports) initial_steps,
                  overallProgress := avgProgress (replay (take k progress_reports) initial_steps)\<rparr>)"


section \<open>Properties of the Training Orchestrator\<close>

lemma progress_effect_steps [simp]:
  "trainingSteps (fst (progress_effect E pid (s, b))) = trainingSteps s"
  by (simp add: progress_effect_def Let_def)

lemma progress_effect_overall [simp]:
  "overallProgress (fst (progress_effect E pid (s, b))) = avgProgress (trainingSteps s)"
  by (simp add: progress_effect_def Let_def)

lemma setTrainingSteps_steps [simp]:
  "trainingSteps (fst (setTrainingSteps E pid f sb)) = f (trainingSteps (fst sb))"
  by (cases sb) (simp add: setTrainingSteps_def)

lemma setTrainingSteps_overall [simp]:
  "overallProgress (fst (setTrainingSteps E pid f sb)) = avgProgress (f (trainingSteps (fst sb)))"
  by (cases sb) (simp add: setTrainingSteps_def)

lemma setIsTraining_steps [simp]:
  "trainingSteps (fst (setIsTraining E pid v sb)) = trainingSteps (fst sb)"
  by (cases sb) (simp add: setIsTraining_def)

lemma setIsTraining_overall [simp]:
  "overallProgress (fst (setIsTraining E pid v sb)) = avgProgress (trainingSteps (fst sb))"
  by (cases sb) (simp add: setIsTraining_def)

lemma same_identity_map:
  assumes "\<And>st. ts_id (f st) = ts_id st \<and> ts_name (f st) = ts_name st \<and> ts_description (f st) = ts_description st"
  shows "same_identity (map f steps) = same_identity steps"
  by (simp add: same_identity_def comp_def assms)

lemma same_identity_reset: "same_identity (reset_steps steps) = same_identity steps"
  unfolding reset_steps_def by (rule same_identity_map) simp

lemma same_identity_report: "same_identity (report_progress i p steps) = same_identity steps"
  unfolding report_progress_def by (rule same_identity_map) simp

lemma same_identity_mark: "same_identity (mark_error steps) = same_identity steps"
  unfolding mark_error_def by (rule same_identity_map) simp

lemma stage_ok_reset: "list_all stage_ok (reset_steps steps)"
  by (simp add: reset_steps_def list_all_iff stage_ok_def)

lemma stage_ok_report:
  "list_all stage_ok steps \<Longrightarrow> 0 \<le> p \<Longrightarrow> p \<le> 100 \<Longrightarrow> list_all stage_ok (report_progress i p steps)"
  by (auto simp add: report_progress_def list_all_iff stage_ok_def)

lemma stage_ok_mark: "list_all stage_ok steps \<Longrightarrow> list_all stage_ok (mark_error steps)"
  by (auto simp add: mark_error_def list_all_iff stage_ok_def)

lemma session_inv_set:
  assumes "session_inv sb" "same_identity (f (trainingSteps (fst sb)))"
          "list_all stage_ok (f (trainingSteps (fst sb)))"
  shows "session_inv (setTrainingSteps E pid f sb)"
  using assms by (cases sb) (simp add: session_inv_def)

lemma session_inv_initial: "session_inv (initial_state, b)"
  by (simp add: session_inv_def same_identity_def initial_state_def initial_steps_def
      stage_ok_def avgProgress_def totalProgress_def)

lemma reachable_inv: "reachable E pid sb \<Longrightarrow> session_inv sb"
proof (induction rule: reachable.induct)
  case (mount b)
  show ?case by (rule session_inv_initial)
next
  case (backend_change s b b')
  then show ?case by (simp add: session_inv_def)
next
  case (started sb)
  then show ?case by (cases sb) (simp add: begin_training_def session_inv_def)
next
  case (reset sb)
  then show ?case
    by (intro session_inv_set) (simp_all add: same_identity_reset stage_ok_reset session_inv_def)
next
  case (report sb progress stepId)
  then show ?case unfolding onProgress_def
    by (intro session_inv_set) (simp_all add: same_identity_report stage_ok_report session_inv_def)
next
  case (succeeded sb t)
  then show ?case by (cases sb) (simp add: add_toast_def session_inv_def)
next
  case (failed sb msg)
  then show ?case unfolding training_failed_def
    by (cases sb) (simp add: add_toast_def session_inv_def same_identity_mark stage_ok_mark)
next
  case (finish sb)
  then show ?case by (cases sb) (simp add: session_inv_def)
next
  case (retry sb)
  then show ?case
    by (cases sb) (simp add: try_again_def session_inv_def same_identity_reset stage_ok_reset)
qed

lemma five_stages:
  assumes "same_identity steps"
  obtains s1 s2 s3 s4 s5 where "steps = [s1, s2, s3, s4, s5]"
proof -
  have "length steps = 5"
    using assms arg_cong[of _ _ length, OF assms[unfolded same_identity_def]]
    by (simp add: initial_steps_def)
  then show ?thesis
    using that by (auto simp add: length_Suc_conv numeral_eq_Suc)
qed

lemma five_full:
  fixes a b c d e :: int
  assumes "a \<le> 100" "b \<le> 100" "c \<le> 100" "d \<le> 100" "e \<le> 100"
  shows "a + b + c + d + e = 500 \<longleftrightarrow> a = 100 \<and> b = 100 \<and> c = 100 \<and> d = 100 \<and> e = 100"
  using assms by auto

lemma mean_full_iff:
  assumes "same_identity steps" "list_all stage_ok steps"
  shows "avgProgress steps = 100 \<longleftrightarrow> allCompleted steps"
proof -
  obtain s1 s2 s3 s4 s5 where st: "steps = [s1, s2, s3, s4, s5]"
    using assms(1) by (rule five_stages)
  have mean: "rat_of_int n / 5 = 100 \<longleftrightarrow> n = 500" for n
    by simp
  have len: "of_nat (length steps) = (5::rat)"
    unfolding st by simp
  have total: "totalProgress steps =
        ts_progress s1 + ts_progress s2 + ts_progress s3 + ts_progress s4 + ts_progress s5"
    unfolding st totalProgress_def by simp
  have ok: "stage_ok s1" "stage_ok s2" "stage_ok s3" "stage_ok s4" "stage_ok s5"
    using assms(2) unfolding st by simp_all
  have "avgProgress steps = 100 \<longleftrightarrow> totalProgress steps = 500"
    unfolding avgProgress_def len by (rule mean)
  also have "\<dots> \<longleftrightarrow> ts_progress s1 = 100 \<and> ts_progress s2 = 100 \<and> ts_progress s3 = 100 \<and>
            ts_progress s4 = 100 \<and> ts_progress s5 = 100"
    unfolding total using ok by (intro five_full) (simp_all add: stage_ok_def)
  also have "\<dots> \<longleftrightarrow> allCompleted steps"
    using ok unfolding stage_ok_def st allCompleted_def by simp
  finally show ?thesis .
qed

subsection \<open>The pipeline, stage by stage\<close>

lemma gather_state:
  "\<exists>b'. snd (gatherTrainingData E pid (u, b)) = (u, b')"
  by (simp add: gatherTrainingData_def send_def Let_def split: reply.splits)

lemma create_state:
  "\<exists>b'. snd (createPersonaProfile J W E pid ta va vi (u, b)) = (u, b')"
  by (simp add: createPersonaProfile_def send_def Let_def
      split: reply.splits outcome.splits option.splits)

lemma optimize_state:
  "\<exists>b'. snd (optimizeConversationModel J E pid profile (u, b)) = (u, b')"
  by (simp add: optimizeConversationModel_def send_def Let_def
      split: reply.splits outcome.splits option.splits)

lemma pipeline_steps:
  fixes report :: "string \<Rightarrow> int \<Rightarrow> 'u \<times> backend \<Rightarrow> 'u \<times> backend"
  assumes Q0: "Q0 s0"
    and r1: "\<And>s. Q0 s \<Longrightarrow> Q1 (report ''content-analysis'' 10 s)"
    and r2: "\<And>s. Q1 s \<Longrightarrow> Q2 (report ''content-analysis'' 30 s)"
    and r3: "\<And>s. Q2 s \<Longrightarrow> Q3 (report ''voice-modeling'' 50 s)"
    and r4: "\<And>s. Q3 s \<Longrightarrow> Q4 (report ''personality-extraction'' 70 s)"
    and r5: "\<And>s. Q4 s \<Longrightarrow> Q5 (report ''conversation-training'' 85 s)"
    and r6: "\<And>s. Q5 s \<Longrightarrow> Q6 (report ''final-optimization'' 95 s)"
    and r7: "\<And>s. Q6 s \<Longrightarrow> Q7 (report ''final-optimization'' 100 s)"
    and b1: "\<And>u b b'. Q1 (u, b) \<Longrightarrow> Q1 (u, b')"
    and b5: "\<And>u b b'. Q5 (u, b) \<Longrightarrow> Q5 (u, b')"
    and b6: "\<And>u b b'. Q6 (u, b) \<Longrightarrow> Q6 (u, b')"
  shows "case pipeline_startTraining J W E pid report s0 of
           (Inr profile, s) \<Rightarrow> Q7 s
         | (Inl e, s) \<Rightarrow> e = ''Failed to train AI persona'' \<and> (Q1 s \<or> Q2 s \<or> Q3 s \<or> Q5 s \<or> Q6 s)"
proof -
  define s1 where "s1 = report ''content-analysis'' 10 s0"
  obtain g t1 where g: "gatherTrainingData E pid s1 = (g, t1)" by (cases "gatherTrainingData E pid s1")
  have "Q1 s1" unfolding s1_def using Q0 by (rule r1)
  then have Qt1: "Q1 t1"
    using gather_state[of E pid "fst s1" "snd s1"] g b1 by (cases s1) auto
  show ?thesis
  proof (cases g)
    case (Inl e)
    then show ?thesis using g Qt1
      by (simp add: pipeline_startTraining_def bind_def flip: s1_def)
  next
    case (Inr td)
    note gi = this
    define s2 where "s2 = report ''content-analysis'' 30 t1"
    have Q2: "Q2 s2" unfolding s2_def using Qt1 by (rule r2)
    show ?thesis
    proof (cases "analyzeTextContent J W (td_text td)")
      case (Rejected e)
      then show ?thesis using g gi Q2
        by (simp add: pipeline_startTraining_def bind_def await_def flip: s1_def s2_def)
    next
      case (Resolved ta)
      note ti = this
      define s3 where "s3 = report ''voice-modeling'' 50 s2"
      have Q3: "Q3 s3" unfolding s3_def using Q2 by (rule r3)
      show ?thesis
      proof (cases "analyzeAudioContent J W (td_audio td)")
        case (Rejected e)
        then show ?thesis using g gi ti Q3
          by (simp add: pipeline_startTraining_def bind_def await_def flip: s1_def s2_def s3_def)
      next
        case (Resolved va)
        note ai = this
        define s5 where "s5 = report ''conversation-training'' 85 (report ''personality-extraction'' 70 s3)"
        have Q5: "Q5 s5" unfolding s5_def using Q3 by (intro r5 r4)
        obtain vi where vi: "analyzeVisualContent W (td_images td) (td_video td) = Resolved vi"
          by (simp add: analyzeVisualContent_def)
        obtain c t5 where c: "createPersonaProfile J W E pid ta va vi s5 = (c, t5)"
          by (cases "createPersonaProfile J W E pid ta va vi s5")
        have Qt5: "Q5 t5"
          using create_state[of J W E pid ta va vi "fst s5" "snd s5"] c b5 Q5 by (cases s5) auto
        show ?thesis
        proof (cases c)
          case (Inl e)
          then show ?thesis using g gi ti ai vi c Qt5
            by (simp add: pipeline_startTraining_def bind_def await_def
                flip: s1_def s2_def s3_def s5_def)
        next
          case (Inr profile)
          note ci = this
          define s6 where "s6 = report ''final-optimization'' 95 t5"
          have Q6: "Q6 s6" unfolding s6_def using Qt5 by (rule r6)
          obtain d t6 where d: "optimizeConversationModel J E pid profile s6 = (d, t6)"
            by (cases "optimizeConversationModel J E pid profile s6")
          have Qt6: "Q6 t6"
            using optimize_state[of J E pid profile "fst s6" "snd s6"] d b6 Q6 by (cases s6) auto
          have Q7: "Q7 (report ''final-optimization'' 100 t6)" using Qt6 by (rule r7)
          show ?thesis using g gi ti ai vi c ci d Qt6 Q7
            by (cases d) (simp_all add: pipeline_startTraining_def bind_def await_def
                flip: s1_def s2_def s3_def s5_def s6_def)
        qed
      qed
    qed
  qed
qed


lemma reachable_reset:
  assumes "reachable E pid sb"
  shows "reset_steps (trainingSteps (fst sb)) = initial_steps"
proof -
  have id: "same_identity (trainingSteps (fst sb))"
    using reachable_inv[OF assms] by (simp add: session_inv_def)
  then obtain s1 s2 s3 s4 s5 where st: "trainingSteps (fst sb) = [s1, s2, s3, s4, s5]"
    by (rule five_stages)
  show ?thesis
    using id unfolding st same_identity_def reset_steps_def initial_steps_def
    by simp
qed



lemma startTraining_reachable:
  assumes "reachable E pid sb"
  shows "reachable E pid (startTraining J W E pid sb)"
proof -
  define s0 where "s0 = setTrainingSteps E pid reset_steps (begin_training E pid sb)"
  have r0: "reachable E pid s0"
    unfolding s0_def using assms by (intro reachable.reset reachable.started)
  have step: "case pipeline_startTraining J W E pid (onProgress E pid) s0 of
           (Inr profile, s) \<Rightarrow> reachable E pid s
         | (Inl e, s) \<Rightarrow> e = ''Failed to train AI persona'' \<and>
             (reachable E pid s \<or> reachable E pid s \<or> reachable E pid s \<or> reachable E pid s \<or> reachable E pid s)"
    by (rule pipeline_steps[where ?Q0.0="reachable E pid" and ?Q1.0="reachable E pid"
          and ?Q2.0="reachable E pid" and ?Q3.0="reachable E pid" and ?Q4.0="reachable E pid"
          and ?Q5.0="reachable E pid" and ?Q6.0="reachable E pid" and ?Q7.0="reachable E pid", OF r0])
       (auto intro: reachable.report reachable.backend_change)
  show ?thesis
    using step unfolding startTraining_def trainPersonaFromUploadedContent_def
    by (auto simp flip: s0_def split: prod.splits sum.splits
        intro!: reachable.finish reachable.succeeded reachable.failed)
qed

text \<open>
  Claim C8. A call of the progress callback with a stage identifier and a value keeps the
  number of stages; a stage with that identifier gets the status completed when the value is
  100 and processing otherwise, and the value as its progress, its other fields unchanged;
  every other stage is left as it was.
\<close>

theorem onProgress_updates_only_the_named_stage:
  assumes "i < length (trainingSteps s)"
  shows "let before = trainingSteps s ! i;
             after = trainingSteps (fst (onProgress E personaId stepId progress (s, b))) ! i
         in length (trainingSteps (fst (onProgress E personaId stepId progress (s, b))))
              = length (trainingSteps s) \<and>
            (if ts_id before = stepId
             then after = before\<lparr>ts_status := (if progress = 100 then Completed else Processing),
                                ts_progress := progress\<rparr>
             else after = before)"
  using assms by (simp add: onProgress_def report_progress_def Let_def)

text \<open>Reporting voice-modeling at 50 on the initial stages changes the second stage only.\<close>

theorem onProgress_updates_only_the_named_stage_witness:
  "(1::nat) < length (trainingSteps initial_state) \<and>
   map (\<lambda>step. (ts_status step, ts_progress step))
     (trainingSteps (fst (onProgress obliging_env example_persona ''voice-modeling'' 50
        (initial_state, empty_backend))))
    = [(Pending, 0), (Processing, 50), (Pending, 0), (Pending, 0), (Pending, 0)] \<and>
   trainingSteps (fst (onProgress obliging_env example_persona ''voice-modeling'' 50
        (initial_state, empty_backend))) ! 1
    = (initial_steps ! 1)\<lparr>ts_status := Processing, ts_progress := 50\<rparr>"
proof -
  have len: "(1::nat) < length (trainingSteps initial_state)"
    by (simp add: initial_state_def initial_steps_def)
  have id: "ts_id (trainingSteps initial_state ! 1) = ''voice-modeling''"
    by (simp add: initial_state_def initial_steps_def)
  show ?thesis
    using onProgress_updates_only_the_named_stage[OF len, of obliging_env example_persona
        "''voice-modeling''" 50 empty_backend] id len
    by (simp add: Let_def) (simp add: onProgress_def report_progress_def initial_state_def initial_steps_def)
qed

text \<open>
  Claim C9. Both resets, the Try Again handler and the reset at the start of
  \<open>startTraining\<close> (after the status update), leave every stage with its identifier, status
  pending and progress 0, whatever the stages held before; after Try Again the overall
  progress is 0.
\<close>

theorem reset_returns_every_stage_to_pending:
  "map (\<lambda>step. (ts_id step, ts_status step, ts_progress step))
     (trainingSteps (fst (try_again E personaId (s, b))))
     = map (\<lambda>step. (ts_id step, Pending, 0)) (trainingSteps s) \<and>
   map (\<lambda>step. (ts_id step, ts_status step, ts_progress step))
     (trainingSteps (fst (setTrainingSteps E personaId reset_steps (begin_training E personaId (s, b)))))
     = map (\<lambda>step. (ts_id step, Pending, 0)) (trainingSteps s) \<and>
   overallProgress (fst (try_again E personaId (s, b))) = 0"
proof -
  have zero: "avgProgress (reset_steps xs) = 0" for xs
  proof -
    have "foldl (\<lambda>sum step. sum + ts_progress step) a (reset_steps xs) = a" for a
      by (induction xs arbitrary: a) (simp_all add: reset_steps_def)
    then show ?thesis by (simp add: avgProgress_def totalProgress_def)
  qed
  have begin_steps: "trainingSteps (fst (begin_training E personaId (s, b))) = trainingSteps s"
    by (simp add: begin_training_def case_prod_beta)
  have m: "map (\<lambda>step. (ts_id step, ts_status step, ts_progress step)) (reset_steps xs)
           = map (\<lambda>step. (ts_id step, Pending, 0)) xs" for xs
    by (simp add: reset_steps_def comp_def)
  show ?thesis
    using begin_steps
    by (cases "begin_training E personaId (s, b)") (simp add: try_again_def zero m)
qed


lemma onProgress_quiet:
  assumes "\<not> allCompleted (report_progress sid p (trainingSteps s))"
  shows "onProgress E pid sid p (s, b) =
         (s\<lparr>trainingSteps := report_progress sid p (trainingSteps s),
            overallProgress := avgProgress (report_progress sid p (trainingSteps s))\<rparr>, b)"
  using assms by (simp add: onProgress_def setTrainingSteps_def progress_effect_def Let_def)

lemma replay_snoc:
  "replay (rs @ [(sid, p)]) steps = report_progress sid p (replay rs steps)"
  by (simp add: replay_def)

lemma take_reports:
  "take 0 progress_reports = []"
  "take 1 progress_reports = take 0 progress_reports @ [(''content-analysis'', 10)]"
  "take 2 progress_reports = take 1 progress_reports @ [(''content-analysis'', 30)]"
  "take 3 progress_reports = take 2 progress_reports @ [(''voice-modeling'', 50)]"
  "take 4 progress_reports = take 3 progress_reports @ [(''personality-extraction'', 70)]"
  "take 5 progress_reports = take 4 progress_reports @ [(''conversation-training'', 85)]"
  "take 6 progress_reports = take 5 progress_reports @ [(''final-optimization'', 95)]"
  "take 7 progress_reports = take 6 progress_reports @ [(''final-optimization'', 100)]"
  by (simp_all add: progress_reports_def)

lemma replay_values:
  "map (\<lambda>st. (ts_id st, ts_status st, ts_progress st)) (replay (take 0 progress_reports) initial_steps)
     = [(''content-analysis'', Pending, 0), (''voice-modeling'', Pending, 0), (''personality-extraction'', Pending, 0), (''conversation-training'', Pending, 0), (''final-optimization'', Pending, 0)]"
  "map (\<lambda>st. (ts_id st, ts_status st, ts_progress st)) (replay (take 1 progress_reports) initial_steps)
     = [(''content-analysis'', Processing, 10), (''voice-modeling'', Pending, 0), (''personality-extraction'', Pending, 0), (''conversation-training'', Pending, 0), (''final-optimization'', Pending, 0)]"
  "map (\<lambda>st. (ts_id st, ts_status st, ts_progress st)) (replay (take 2 progress_reports) initial_steps)
     = [(''content-analysis'', Processing, 30), (''voice-modeling'', Pending, 0), (''personality-extraction'', Pending, 0), (''conversation-training'', Pending, 0), (''final-optimization'', Pending, 0)]"
  "map (\<lambda>st. (ts_id st, ts_status st, ts_progress st)) (replay (take 3 progress_reports) initial_steps)
     = [(''content-analysis'', Processing, 30), (''voice-modeling'', Processing, 50), (''personality-extraction'', Pending, 0), (''conversation-training'', Pending, 0), (''final-optimization'', Pending, 0)]"
  "map (\<lambda>st. (ts_id st, ts_status st, ts_progress st)) (replay (take 4 progress_reports) initial_steps)
     = [(''content-analysis'', Processing, 30), (''voice-modeling'', Processing, 50), (''personality-extraction'', Processing, 70), (''conversation-training'', Pending, 0), (''final-optimization'', Pending, 0)]"
  "map (\<lambda>st. (ts_id st, ts_status st, ts_progress st)) (replay (take 5 progress_reports) initial_steps)
     = [(''content-analysis'', Processing, 30), (''voice-modeling'', Processing, 50), (''personality-extraction'', Processing, 70), (''conversation-training'', Processing, 85), (''final-optimization'', Pending, 0)]"
  "map (\<lambda>st. (ts_id st, ts_status st, ts_progress st)) (replay (take 6 progress_reports) initial_steps)
     = [(''content-analysis'', Processing, 30), (''voice-modeling'', Processing, 50), (''personality-extraction'', Processing, 70), (''conversation-training'', Processing, 85), (''final-optimization'', Processing, 95)]"
  "map (\<lambda>st. (ts_id st, ts_status st, ts_progress st)) (replay (take 7 progress_reports) initial_steps)
     = [(''content-analysis'', Processing, 30), (''voice-modeling'', Processing, 50), (''personality-extraction'', Processing, 70), (''conversation-training'', Processing, 85), (''final-optimization'', Completed, 100)]"
  by (simp_all add: progress_reports_def replay_def report_progress_def initial_steps_def)

lemma allCompleted_view:
  "allCompleted steps =
     list_all (\<lambda>v. fst (snd v) = Completed)
       (map (\<lambda>st. (ts_id st, ts_status st, ts_progress st)) steps)"
  by (simp add: allCompleted_def list_all_iff)

lemma foldl_progress:
  "foldl (\<lambda>sum step. sum + ts_progress step) a steps = a + sum_list (map ts_progress steps)"
  by (induction steps arbitrary: a) simp_all

lemma avgProgress_view:
  "avgProgress steps =
     of_int (sum_list (map (\<lambda>v. snd (snd v))
                (map (\<lambda>st. (ts_id st, ts_status st, ts_progress st)) steps)))
       / of_nat (length (map (\<lambda>st. (ts_id st, ts_status st, ts_progress st)) steps))"
  by (simp add: avgProgress_def totalProgress_def foldl_progress comp_def)

lemma replay_not_all_completed:
  "\<not> allCompleted (replay (take 0 progress_reports) initial_steps)"
  "\<not> allCompleted (replay (take 1 progress_reports) initial_steps)"
  "\<not> allCompleted (replay (take 2 progress_reports) initial_steps)"
  "\<not> allCompleted (replay (take 3 progress_reports) initial_steps)"
  "\<not> allCompleted (replay (take 4 progress_reports) initial_steps)"
  "\<not> allCompleted (replay (take 5 progress_reports) initial_steps)"
  "\<not> allCompleted (replay (take 6 progress_reports) initial_steps)"
  "\<not> allCompleted (replay (take 7 progress_reports) initial_steps)"
  unfolding allCompleted_view replay_values by simp_all

lemma replay_avg:
  "avgProgress (replay (take 0 progress_reports) initial_steps) = 0"
  "avgProgress (replay (take 1 progress_reports) initial_steps) = 2"
  "avgProgress (replay (take 2 progress_reports) initial_steps) = 6"
  "avgProgress (replay (take 3 progress_reports) initial_steps) = 16"
  "avgProgress (replay (take 4 progress_reports) initial_steps) = 30"
  "avgProgress (replay (take 5 progress_reports) initial_steps) = 47"
  "avgProgress (replay (take 6 progress_reports) initial_steps) = 66"
  "avgProgress (replay (take 7 progress_reports) initial_steps) = 67"
  unfolding avgProgress_view replay_values by simp_all

lemma onProgress_replay:
  assumes "trainingSteps s = replay (take k progress_reports) initial_steps"
    and "take k' progress_reports = take k progress_reports @ [(sid, p)]"
    and "\<not> allCompleted (replay (take k' progress_reports) initial_steps)"
  shows "onProgress E pid sid p (s, b) =
         (s\<lparr>trainingSteps := replay (take k' progress_reports) initial_steps,
            overallProgress := avgProgress (replay (take k' progress_reports) initial_steps)\<rparr>, b)"
proof -
  have next_steps: "report_progress sid p (trainingSteps s) = replay (take k' progress_reports) initial_steps"
    by (simp add: assms(1,2) replay_snoc)
  show ?thesis
    using onProgress_quiet[of sid p s E pid b] assms(3) next_steps by simp
qed

lemma after_reports_step:
  assumes "after_reports k s0 sb"
    and "take k' progress_reports = take k progress_reports @ [(sid, p)]"
    and "\<not> allCompleted (replay (take k' progress_reports) initial_steps)"
  shows "after_reports k' s0 (onProgress E pid sid p sb)"
proof -
  obtain s b where sb: "sb = (s, b)" by (cases sb)
  have s: "s = s0\<lparr>trainingSteps := replay (take k progress_reports) initial_steps,
                  overallProgress := avgProgress (replay (take k progress_reports) initial_steps)\<rparr>"
    using assms(1) by (simp add: after_reports_def sb)
  then have "trainingSteps s = replay (take k progress_reports) initial_steps"
    by simp
  from onProgress_replay[OF this assms(2,3), of E pid b]
  show ?thesis
    unfolding sb after_reports_def by (simp add: s)
qed

lemma after_reports_backend: "after_reports k s0 (u, b) \<Longrightarrow> after_reports k s0 (u, b')"
  by (simp add: after_reports_def)

lemma orchestrated_run:
  assumes "after_reports 0 s0 sb0"
  shows "case pipeline_startTraining J W E pid (onProgress E pid) sb0 of
           (Inr profile, sb) \<Rightarrow> after_reports 7 s0 sb
         | (Inl e, sb) \<Rightarrow> e = ''Failed to train AI persona'' \<and>
             (after_reports 1 s0 sb \<or> after_reports 2 s0 sb \<or> after_reports 3 s0 sb \<or>
              after_reports 5 s0 sb \<or> after_reports 6 s0 sb)"
  by (rule pipeline_steps[where ?Q0.0="after_reports 0 s0" and ?Q4.0="after_reports 4 s0", OF assms])
     ((erule after_reports_step, rule take_reports, rule replay_not_all_completed)+,
      (erule after_reports_backend)+)

lemma recorded_run:
  "case pipeline_startTraining J W E pid record_progress ([], b) of
           (Inr profile, lb) \<Rightarrow> fst lb = take 7 progress_reports
         | (Inl e, lb) \<Rightarrow> e = ''Failed to train AI persona'' \<and>
             (fst lb = take 1 progress_reports \<or> fst lb = take 2 progress_reports \<or>
              fst lb = take 3 progress_reports \<or> fst lb = take 5 progress_reports \<or>
              fst lb = take 6 progress_reports)"
  by (rule pipeline_steps[where ?Q0.0="\<lambda>lb. fst lb = take 0 progress_reports"
        and ?Q4.0="\<lambda>lb. fst lb = take 4 progress_reports"])
     (auto simp add: record_progress_def progress_reports_def)


lemma replay_total:
  "\<not> allCompleted (replay (take k progress_reports) initial_steps) \<and>
   avgProgress (replay (take k progress_reports) initial_steps) < 100"
proof -
  consider "k = 0" | "k = 1" | "k = 2" | "k = 3" | "k = 4" | "k = 5" | "k = 6" | "7 \<le> k"
    by linarith
  then show ?thesis
  proof cases
    case 8
    then have "take k progress_reports = take 7 progress_reports"
      by (simp add: progress_reports_def)
    then show ?thesis by (simp add: replay_not_all_completed replay_avg)
  qed (use replay_not_all_completed replay_avg in simp_all)
qed

text \<open>
  Claim C3. When the pipeline call of \<open>startTraining\<close> returns a profile, the first four
  stages end in status processing at 30, 50, 70 and 85 and only final-optimization is
  completed at 100, so not all stages are completed and the overall progress is 67. After
  every prefix of the pipeline's reports the stages are not all completed and the overall
  progress is below 100. The callbacks a successful run makes are exactly the seven of
  \<open>progress_reports\<close>.
\<close>

theorem successful_run_leaves_four_stages_processing:
  assumes "reachable E personaId sb"
    and "fst (trainPersonaFromUploadedContent J W E personaId (onProgress E personaId)
               (setTrainingSteps E personaId reset_steps (begin_training E personaId sb)))
         = Inr profile"
  shows "map (\<lambda>step. (ts_id step, ts_status step, ts_progress step))
           (trainingSteps (fst (startTraining J W E personaId sb)))
         = [(''content-analysis'', Processing, 30), (''voice-modeling'', Processing, 50),
            (''personality-extraction'', Processing, 70), (''conversation-training'', Processing, 85),
            (''final-optimization'', Completed, 100)] \<and>
         \<not> allCompleted (trainingSteps (fst (startTraining J W E personaId sb))) \<and>
         overallProgress (fst (startTraining J W E personaId sb)) = 67 \<and>
         (\<forall>k. \<not> allCompleted (replay (take k progress_reports) (reset_steps (trainingSteps (fst sb)))) \<and>
              avgProgress (replay (take k progress_reports) (reset_steps (trainingSteps (fst sb)))) < 100) \<and>
         (\<forall>b p. fst (trainPersonaFromUploadedContent J W E personaId record_progress ([], b)) = Inr p \<longrightarrow>
                fst (snd (trainPersonaFromUploadedContent J W E personaId record_progress ([], b)))
                = progress_reports)"
proof -
  define sb0 where "sb0 = setTrainingSteps E personaId reset_steps (begin_training E personaId sb)"
  have "reachable E personaId (begin_training E personaId sb)"
    using assms(1) by (rule reachable.started)
  then have reset0: "reset_steps (trainingSteps (fst (begin_training E personaId sb))) = initial_steps"
    by (rule reachable_reset)
  have start: "after_reports 0 (fst sb0) sb0"
    unfolding sb0_def after_reports_def
    by (cases "begin_training E personaId sb") (use reset0 in \<open>simp add: take_reports replay_def\<close>)
  obtain sb7 where run: "pipeline_startTraining J W E personaId (onProgress E personaId) sb0 = (Inr profile, sb7)"
    using assms(2) unfolding trainPersonaFromUploadedContent_def sb0_def
    by (cases "pipeline_startTraining J W E personaId (onProgress E personaId)
          (setTrainingSteps E personaId reset_steps (begin_training E personaId sb))") simp
  have "after_reports 7 (fst sb0) sb7"
    using orchestrated_run[OF start, of J W E personaId] run by simp
  then have steps7: "trainingSteps (fst sb7) = replay (take 7 progress_reports) initial_steps"
    by (simp add: after_reports_def)
  have final: "trainingSteps (fst (startTraining J W E personaId sb)) = replay (take 7 progress_reports) initial_steps"
    unfolding startTraining_def trainPersonaFromUploadedContent_def
    using run steps7 by (cases sb7) (simp add: add_toast_def flip: sb0_def)
  have overall: "overallProgress (fst (startTraining J W E personaId sb)) = avgProgress (replay (take 7 progress_reports) initial_steps)"
    unfolding startTraining_def trainPersonaFromUploadedContent_def
    using run steps7 by (cases sb7) (simp add: add_toast_def flip: sb0_def)
  have trace: "fst (snd (trainPersonaFromUploadedContent J W E personaId record_progress ([], b))) = progress_reports"
    if "fst (trainPersonaFromUploadedContent J W E personaId record_progress ([], b)) = Inr p" for b p
    using recorded_run[of J W E personaId b] that
    unfolding trainPersonaFromUploadedContent_def
    by (cases "pipeline_startTraining J W E personaId record_progress ([], b)")
       (simp add: progress_reports_def)
  have reset_sb: "reset_steps (trainingSteps (fst sb)) = initial_steps"
    using assms(1) by (rule reachable_reset)
  show ?thesis
    unfolding final overall reset_sb
    using trace replay_total
    by (simp add: replay_values replay_not_all_completed replay_avg)
qed


lemma gather_done:
  assumes "answer E (length (requests b)) = Done"
  shows "\<exists>td. gatherTrainingData E pid (u, b) =
           (Inr td, (u, issue Done (DbSelect ''persona_content'' (content_filter pid)) b))"
  using assms by (simp add: gatherTrainingData_def send_def Let_def)

lemma text_resolves:
  "text_completion W = Resolved c \<Longrightarrow> \<exists>v. analyzeTextContent J W xs = Resolved v"
  by (simp add: analyzeTextContent_def)

lemma audio_resolves:
  "audio_completion W = Resolved c \<Longrightarrow> \<exists>v. analyzeAudioContent J W xs = Resolved v"
  by (simp add: analyzeAudioContent_def Let_def)

lemma create_malformed:
  assumes "profile_completion W = Resolved c" "json_parse J (content_or_empty_object c) = None"
  shows "createPersonaProfile J W E pid ta va vi s = (Inl ''Failed to create persona profile'', s)"
  using assms by (cases s) (simp add: createPersonaProfile_def)

lemma pipeline_malformed:
  assumes sel: "\<forall>n. answer E n = Done"
    and tcs: "text_completion W = Resolved c1"
    and aud: "audio_completion W = Resolved c2"
    and pro: "profile_completion W = Resolved c"
    and bad: "json_parse J (content_or_empty_object c) = None"
    and first: "report ''content-analysis'' 10 s0 = (u1, b1)"
  shows "pipeline_startTraining J W E pid report s0 =
           (Inl ''Failed to train AI persona'',
            report ''conversation-training'' 85 (report ''personality-extraction'' 70
              (report ''voice-modeling'' 50 (report ''content-analysis'' 30
                 (u1, issue Done (DbSelect ''persona_content'' (content_filter pid)) b1)))))"
proof -
  obtain td where g: "gatherTrainingData E pid (u1, b1) =
           (Inr td, (u1, issue Done (DbSelect ''persona_content'' (content_filter pid)) b1))"
    using gather_done[of E b1 pid u1] sel by auto
  obtain ta where ta: "analyzeTextContent J W (td_text td) = Resolved ta"
    using text_resolves[OF tcs] by blast
  obtain va where va: "analyzeAudioContent J W (td_audio td) = Resolved va"
    using audio_resolves[OF aud] by blast
  obtain vi where vi: "analyzeVisualContent W (td_images td) (td_video td) = Resolved vi"
    by (simp add: analyzeVisualContent_def)
  show ?thesis
    by (simp add: pipeline_startTraining_def bind_def await_def first g ta va vi
        create_malformed[OF pro bad])
qed

lemma update_sets_status:
  "list_all (\<lambda>r. col r ''status'' = JStr st)
     (db_select (apply_call (DbUpdate ''personas'' ((''status'', JStr st) # rest) [(''id'', JStr pid)]) T)
        ''personas'' [(''id'', JStr pid)])"
  by (auto simp add: db_select_def list_all_iff col_def patch_row_def)


lemma mark_error_view:
  "map (\<lambda>st. (ts_id st, ts_status st, ts_progress st)) (mark_error steps) =
   map (\<lambda>v. (fst v, if fst (snd v) = Processing then Error else fst (snd v), snd (snd v)))
     (map (\<lambda>st. (ts_id st, ts_status st, ts_progress st)) steps)"
  by (simp add: mark_error_def comp_def)

lemma begin_training_quiet:
  assumes "\<not> allCompleted (trainingSteps s)"
  shows "begin_training E pid (s, b) =
           (s\<lparr>isTraining := True, error := None, overallProgress := avgProgress (trainingSteps s)\<rparr>,
            updatePersonaStatus E pid ''training'' 0 b)"
  using assms by (simp add: begin_training_def progress_effect_def Let_def)

lemma start_button_not_completed:
  assumes "reachable E pid sb" "overallProgress (fst sb) = 0"
  shows "\<not> allCompleted (trainingSteps (fst sb))"
proof -
  have inv: "session_inv sb" using assms(1) by (rule reachable_inv)
  then have "avgProgress (trainingSteps (fst sb)) = 100 \<longleftrightarrow> allCompleted (trainingSteps (fst sb))"
    by (intro mean_full_iff) (simp_all add: session_inv_def)
  moreover have "avgProgress (trainingSteps (fst sb)) = 0"
    using inv assms(2) by (simp add: session_inv_def)
  ultimately show ?thesis by simp
qed

text \<open>
  Claim C6. Let the Start button be shown (the overall progress is 0), the backend carry out
  every request and the text, audio and profile completions resolve, the profile completion
  with text that \<^verbatim>\<open>JSON.parse\<close> rejects. Then the pipeline call throws, the component
  records the error message, the four stages that were processing (at 30, 50, 70 and 85) are
  marked as error and final-optimization stays pending. The run issues two requests, the
  status update to training and the select of the content records: no update sets the status
  to active, the tables are as the update to training left them, and every row of this
  persona has status training.
\<close>

theorem malformed_profile_aborts_training:
  assumes "reachable E personaId sb"
    and "overallProgress (fst sb) = 0"
    and "\<forall>n. answer E n = Done"
    and "text_completion W = Resolved c1"
    and "audio_completion W = Resolved c2"
    and "profile_completion W = Resolved c"
    and "json_parse J (content_or_empty_object c) = None"
  shows "fst (trainPersonaFromUploadedContent J W E personaId (onProgress E personaId)
               (setTrainingSteps E personaId reset_steps (begin_training E personaId sb)))
           = Inl ''Failed to train AI persona'' \<and>
         error (fst (startTraining J W E personaId sb)) = Some ''Failed to train AI persona'' \<and>
         map (\<lambda>step. (ts_id step, ts_status step, ts_progress step))
           (trainingSteps (fst (startTraining J W E personaId sb)))
           = [(''content-analysis'', Error, 30), (''voice-modeling'', Error, 50),
              (''personality-extraction'', Error, 70), (''conversation-training'', Error, 85),
              (''final-optimization'', Pending, 0)] \<and>
         requests (snd (startTraining J W E personaId sb))
           = requests (snd sb)
               @ [DbUpdate ''personas''
                    [(''status'', JStr ''training''), (''training_progress'', JNum 0),
                     (''updated_at'', JStr (now E (snd sb)))]
                    [(''id'', JStr personaId)],
                  DbSelect ''persona_content'' (content_filter personaId)] \<and>
         tables (snd (startTraining J W E personaId sb))
           = apply_call (DbUpdate ''personas''
                    [(''status'', JStr ''training''), (''training_progress'', JNum 0),
                     (''updated_at'', JStr (now E (snd sb)))]
                    [(''id'', JStr personaId)]) (tables (snd sb)) \<and>
         list_all (\<lambda>r. col r ''status'' = JStr ''training'')
           (db_select (tables (snd (startTraining J W E personaId sb))) ''personas''
              [(''id'', JStr personaId)])"
proof -
  let ?msg = "''Failed to train AI persona''"
  let ?sel = "DbSelect ''persona_content'' (content_filter personaId)"
  let ?upd = "DbUpdate ''personas''
                    [(''status'', JStr ''training''), (''training_progress'', JNum 0),
                     (''updated_at'', JStr (now E (snd sb)))]
                    [(''id'', JStr personaId)]"
  let ?X = "\<lambda>k. replay (take k progress_reports) initial_steps"
  obtain s b where sb: "sb = (s, b)" by (cases sb)
  define s1 where "s1 = s\<lparr>isTraining := True, error := None,
                           overallProgress := avgProgress (trainingSteps s)\<rparr>"
  define b1 where "b1 = updatePersonaStatus E personaId ''training'' 0 b"
  have quiet: "\<not> allCompleted (trainingSteps s)"
    using start_button_not_completed[OF assms(1,2)] by (simp add: sb)
  have sb1: "begin_training E personaId sb = (s1, b1)"
    unfolding sb s1_def b1_def using quiet by (rule begin_training_quiet)
  have b1_requests: "requests b1 = requests (snd sb) @ [?upd]"
    and b1_tables: "tables b1 = apply_call ?upd (tables (snd sb))"
    using assms(3) by (simp_all add: b1_def updatePersonaStatus_def send_def issue_def Let_def sb)
  have "reachable E personaId (begin_training E personaId sb)"
    using assms(1) by (rule reachable.started)
  then have reset1: "reset_steps (trainingSteps s1) = initial_steps"
    using reachable_reset[of E personaId "begin_training E personaId sb"] by (simp add: sb1)
  define s0 where "s0 = s1\<lparr>trainingSteps := initial_steps, overallProgress := avgProgress initial_steps\<rparr>"
  have X0: "?X 0 = initial_steps" by (simp add: replay_def)
  have nc0: "\<not> allCompleted initial_steps"
    using replay_not_all_completed(1) by (simp add: replay_def)
  have sb0: "setTrainingSteps E personaId reset_steps (s1, b1) = (s0, b1)"
    by (simp add: setTrainingSteps_def progress_effect_def Let_def reset1 nc0 s0_def)
  have st0: "trainingSteps s0 = ?X 0" by (simp add: s0_def replay_def)
  let ?b = "issue Done ?sel b1"
  have p1: "onProgress E personaId ''content-analysis'' 10 (s0, b1)
              = (s0\<lparr>trainingSteps := ?X 1, overallProgress := avgProgress (?X 1)\<rparr>, b1)"
    by (rule onProgress_replay[OF st0 take_reports(2) replay_not_all_completed(2)])
  have p2: "onProgress E personaId ''content-analysis'' 30
              (s0\<lparr>trainingSteps := ?X 1, overallProgress := avgProgress (?X 1)\<rparr>, ?b)
              = (s0\<lparr>trainingSteps := ?X 2, overallProgress := avgProgress (?X 2)\<rparr>, ?b)"
    using onProgress_replay[OF _ take_reports(3) replay_not_all_completed(3),
        of "s0\<lparr>trainingSteps := ?X 1, overallProgress := avgProgress (?X 1)\<rparr>" E personaId ?b]
    by simp
  have p3: "onProgress E personaId ''voice-modeling'' 50
              (s0\<lparr>trainingSteps := ?X 2, overallProgress := avgProgress (?X 2)\<rparr>, ?b)
              = (s0\<lparr>trainingSteps := ?X 3, overallProgress := avgProgress (?X 3)\<rparr>, ?b)"
    using onProgress_replay[OF _ take_reports(4) replay_not_all_completed(4),
        of "s0\<lparr>trainingSteps := ?X 2, overallProgress := avgProgress (?X 2)\<rparr>" E personaId ?b]
    by simp
  have p4: "onProgress E personaId ''personality-extraction'' 70
              (s0\<lparr>trainingSteps := ?X 3, overallProgress := avgProgress (?X 3)\<rparr>, ?b)
              = (s0\<lparr>trainingSteps := ?X 4, overallProgress := avgProgress (?X 4)\<rparr>, ?b)"
    using onProgress_replay[OF _ take_reports(5) replay_not_all_completed(5),
        of "s0\<lparr>trainingSteps := ?X 3, overallProgress := avgProgress (?X 3)\<rparr>" E personaId ?b]
    by simp
  have p5: "onProgress E personaId ''conversation-training'' 85
              (s0\<lparr>trainingSteps := ?X 4, overallProgress := avgProgress (?X 4)\<rparr>, ?b)
              = (s0\<lparr>trainingSteps := ?X 5, overallProgress := avgProgress (?X 5)\<rparr>, ?b)"
    using onProgress_replay[OF _ take_reports(6) replay_not_all_completed(6),
        of "s0\<lparr>trainingSteps := ?X 4, overallProgress := avgProgress (?X 4)\<rparr>" E personaId ?b]
    by simp
  have run: "pipeline_startTraining J W E personaId (onProgress E personaId) (s0, b1)
              = (Inl ?msg, (s0\<lparr>trainingSteps := ?X 5, overallProgress := avgProgress (?X 5)\<rparr>, ?b))"
    using pipeline_malformed[where report="onProgress E personaId" and pid=personaId,
        OF assms(3-7) p1]
    by (simp only: p2 p3 p4 p5)
  have view: "map (\<lambda>st. (ts_id st, ts_status st, ts_progress st)) (mark_error (?X 5))
           = [(''content-analysis'', Error, 30), (''voice-modeling'', Error, 50),
              (''personality-extraction'', Error, 70), (''conversation-training'', Error, 85),
              (''final-optimization'', Pending, 0)]"
    unfolding mark_error_view replay_values by simp
  have nc: "\<not> allCompleted (mark_error (?X 5))"
    unfolding allCompleted_view view by simp
  have fail: "training_failed E personaId ?msg
                (s0\<lparr>trainingSteps := ?X 5, overallProgress := avgProgress (?X 5)\<rparr>, ?b) =
          (s0\<lparr>trainingSteps := mark_error (?X 5), overallProgress := avgProgress (mark_error (?X 5)),
              error := Some ?msg,
              toasts := toasts s0 @ [ToastError ''Training failed. Please try again.'']\<rparr>, ?b)"
    by (simp add: training_failed_def add_toast_def setTrainingSteps_def progress_effect_def Let_def nc)
  have final: "startTraining J W E personaId sb =
          (s0\<lparr>trainingSteps := mark_error (?X 5), overallProgress := avgProgress (mark_error (?X 5)),
              error := Some ?msg,
              toasts := toasts s0 @ [ToastError ''Training failed. Please try again.''],
              isTraining := False\<rparr>, ?b)"
    by (simp add: startTraining_def trainPersonaFromUploadedContent_def sb1 sb0 run fail
        setIsTraining_def progress_effect_def Let_def nc)
  have status: "list_all (\<lambda>r. col r ''status'' = JStr ''training'')
           (db_select (tables b1) ''personas'' [(''id'', JStr personaId)])"
    unfolding b1_tables by (rule update_sets_status)
  show ?thesis
    using status
    by (simp add: final sb1 sb0 run trainPersonaFromUploadedContent_def view issue_def
        b1_requests b1_tables)
qed



lemma create_done:
  assumes "\<forall>n. answer E n = Done"
    and "profile_completion W = Resolved c"
    and "json_parse J (content_or_empty_object c) = Some (JObj kvs)"
  shows "fst (createPersonaProfile J W E pid ta va vi s) = Inr (JObj kvs)"
  using assms by (cases s) (simp add: createPersonaProfile_def send_def Let_def)

lemma optimize_done:
  assumes "\<forall>n. answer E n = Done"
    and "systemPrompt J (JObj kvs) = Resolved prompt"
  shows "fst (optimizeConversationModel J E pid (JObj kvs) s) = Inr ()"
  using assms by (cases s) (simp add: optimizeConversationModel_def send_def Let_def)

lemma pipeline_succeeds:
  assumes sel: "\<forall>n. answer E n = Done"
    and tcs: "text_completion W = Resolved c1"
    and aud: "audio_completion W = Resolved c2"
    and pro: "profile_completion W = Resolved c"
    and good: "json_parse J (content_or_empty_object c) = Some (JObj kvs)"
    and prompt: "systemPrompt J (JObj kvs) = Resolved prompt"
  shows "fst (pipeline_startTraining J W E pid report s0) = Inr (JObj kvs)"
proof -
  obtain u1 b1 where first: "report ''content-analysis'' 10 s0 = (u1, b1)"
    by (cases "report ''content-analysis'' 10 s0")
  obtain td where g: "gatherTrainingData E pid (u1, b1) =
           (Inr td, (u1, issue Done (DbSelect ''persona_content'' (content_filter pid)) b1))"
    using gather_done[of E b1 pid u1] sel by auto
  obtain ta where ta: "analyzeTextContent J W (td_text td) = Resolved ta"
    using text_resolves[OF tcs] by blast
  obtain va where va: "analyzeAudioContent J W (td_audio td) = Resolved va"
    using audio_resolves[OF aud] by blast
  obtain vi where vi: "analyzeVisualContent W (td_images td) (td_video td) = Resolved vi"
    by (simp add: analyzeVisualContent_def)
  let ?s5 = "report ''conversation-training'' 85 (report ''personality-extraction'' 70
              (report ''voice-modeling'' 50 (report ''content-analysis'' 30
                 (u1, issue Done (DbSelect ''persona_content'' (content_filter pid)) b1))))"
  obtain t5 where c: "createPersonaProfile J W E pid ta va vi ?s5 = (Inr (JObj kvs), t5)"
    using create_done[OF sel pro good, of pid ta va vi ?s5]
    by (cases "createPersonaProfile J W E pid ta va vi ?s5") simp
  obtain t6 where d: "optimizeConversationModel J E pid (JObj kvs) (report ''final-optimization'' 95 t5)
                       = (Inr (), t6)"
    using optimize_done[OF sel prompt, of pid "report ''final-optimization'' 95 t5"]
    by (cases "optimizeConversationModel J E pid (JObj kvs) (report ''final-optimization'' 95 t5)") simp
  show ?thesis
    by (simp add: pipeline_startTraining_def bind_def await_def first g ta va vi c d)
qed

lemma example_prompt:
  "\<exists>prompt. systemPrompt example_js (JObj example_fields) = Resolved prompt"
  by (simp add: systemPrompt_def and_then_def example_fields_def opt_join_def)

text \<open>A run on the example persona whose profile completion answers a well-formed profile.\<close>

theorem successful_run_leaves_four_stages_processing_witness:
  "reachable obliging_env example_persona (initial_state, persona_backend) \<and>
   fst (trainPersonaFromUploadedContent example_js (quiet_world (Some ''PROFILE'')) obliging_env
          example_persona (onProgress obliging_env example_persona)
          (setTrainingSteps obliging_env example_persona reset_steps
             (begin_training obliging_env example_persona (initial_state, persona_backend))))
     = Inr example_profile \<and>
   map (\<lambda>step. (ts_id step, ts_status step, ts_progress step))
     (trainingSteps (fst (startTraining example_js (quiet_world (Some ''PROFILE'')) obliging_env
        example_persona (initial_state, persona_backend))))
     = [(''content-analysis'', Processing, 30), (''voice-modeling'', Processing, 50),
        (''personality-extraction'', Processing, 70), (''conversation-training'', Processing, 85),
        (''final-optimization'', Completed, 100)] \<and>
   overallProgress (fst (startTraining example_js (quiet_world (Some ''PROFILE'')) obliging_env
        example_persona (initial_state, persona_backend))) = 67"
proof -
  have r: "reachable obliging_env example_persona (initial_state, persona_backend)"
    by (rule reachable.mount)
  obtain prompt where p: "systemPrompt example_js (JObj example_fields) = Resolved prompt"
    using example_prompt by blast
  have h1: "\<forall>n. answer obliging_env n = Done"
    by (simp add: obliging_env_def)
  have h2: "text_completion (quiet_world (Some ''PROFILE'')) = Resolved None"
    and h3: "audio_completion (quiet_world (Some ''PROFILE'')) = Resolved None"
    and h4: "profile_completion (quiet_world (Some ''PROFILE'')) = Resolved (Some ''PROFILE'')"
    by (simp_all add: quiet_world_def)
  have h5: "json_parse example_js (content_or_empty_object (Some ''PROFILE'')) = Some (JObj example_fields)"
    by (simp add: example_js_def content_or_empty_object_def example_profile_def)
  have run: "fst (trainPersonaFromUploadedContent example_js (quiet_world (Some ''PROFILE'')) obliging_env
          example_persona (onProgress obliging_env example_persona)
          (setTrainingSteps obliging_env example_persona reset_steps
             (begin_training obliging_env example_persona (initial_state, persona_backend))))
     = Inr example_profile"
    unfolding trainPersonaFromUploadedContent_def example_profile_def
    by (rule pipeline_succeeds[OF h1 h2 h3 h4 h5 p])
  show ?thesis
    using successful_run_leaves_four_stages_processing[OF r run] r run
    by simp
qed

text \<open>A run on the example persona whose profile completion answers text that does not parse.\<close>

theorem malformed_profile_aborts_training_witness:
  "error (fst (startTraining example_js (quiet_world (Some ''garbage'')) obliging_env
        example_persona (initial_state, persona_backend))) = Some ''Failed to train AI persona'' \<and>
   map (\<lambda>step. (ts_id step, ts_status step, ts_progress step))
     (trainingSteps (fst (startTraining example_js (quiet_world (Some ''garbage'')) obliging_env
        example_persona (initial_state, persona_backend))))
     = [(''content-analysis'', Error, 30), (''voice-modeling'', Error, 50),
        (''personality-extraction'', Error, 70), (''conversation-training'', Error, 85),
        (''final-optimization'', Pending, 0)] \<and>
   map (\<lambda>r. col r ''status'')
     (tables (snd (startTraining example_js (quiet_world (Some ''garbage'')) obliging_env
        example_persona (initial_state, persona_backend))) ''personas'')
     = [JStr ''training'']"
proof -
  have r: "reachable obliging_env example_persona (initial_state, persona_backend)"
    by (rule reachable.mount)
  have zero: "overallProgress (fst (initial_state, persona_backend)) = 0"
    by (simp add: initial_state_def)
  have bad: "json_parse example_js (content_or_empty_object (Some ''garbage'')) = None"
    by (simp add: example_js_def content_or_empty_object_def)
  have tabs: "map (\<lambda>r. col r ''status'')
     (apply_call (DbUpdate ''personas''
                    [(''status'', JStr ''training''), (''training_progress'', JNum 0),
                     (''updated_at'', JStr (now obliging_env persona_backend))]
                    [(''id'', JStr example_persona)]) (tables persona_backend) ''personas'')
     = [JStr ''training'']"
    by (simp add: persona_backend_def matches_def patch_row_def col_def)
  have h1: "\<forall>n. answer obliging_env n = Done"
    by (simp add: obliging_env_def)
  have h2: "text_completion (quiet_world (Some ''garbage'')) = Resolved None"
    and h3: "audio_completion (quiet_world (Some ''garbage'')) = Resolved None"
    and h4: "profile_completion (quiet_world (Some ''garbage'')) = Resolved (Some ''garbage'')"
    by (simp_all add: quiet_world_def)
  show ?thesis
    using malformed_profile_aborts_training[OF r zero h1 h2 h3 h4 bad] tabs
    by simp
qed

section \<open>Properties of the Upload Coordinator\<close>

lemma probe_requests:
  "filter is_probe (requests (snd (snd (checkAndCreateBucket P sb))))
     = filter is_probe (requests (snd sb)) @ [probe_call P]"
  by (cases sb)
     (simp add: checkAndCreateBucket_def Let_def issue_def probe_call_def split: reply.splits)



lemma upload_steps_probes:
  assumes "\<not> too_large f" "isPersonaIdValid personaId"
  shows "filter is_probe (requests (snd (snd (snd (upload_steps personaId U f u sb)))))
     = filter is_probe (requests (snd sb)) @ [probe_call (probe U)]"
proof -
  obtain ok s1 b1 where c: "checkAndCreateBucket (probe U) sb = (ok, (s1, b1))"
    by (cases "checkAndCreateBucket (probe U) sb") auto
  have p: "filter is_probe (requests b1) = filter is_probe (requests (snd sb)) @ [probe_call (probe U)]"
    using probe_requests[of "probe U" sb] by (simp add: c)
  show ?thesis
    using assms p
    by (simp add: upload_steps_def too_large_def isPersonaIdValid_def c Let_def issue_def
        issue_insert_def split: reply.splits insert_reply.splits bool.splits)
qed

lemma uploadFile_probes:
  assumes "\<not> too_large f" "isPersonaIdValid personaId"
  shows "filter is_probe (requests (snd (snd (uploadFile personaId U f sb))))
     = filter is_probe (requests (snd sb)) @ [probe_call (probe U)]"
proof -
  obtain r u s' b' where st: "upload_steps personaId U f (new_upload (stamp U) f) sb = (r, u, (s', b'))"
    by (cases "upload_steps personaId U f (new_upload (stamp U) f) sb") auto
  have "filter is_probe (requests b') = filter is_probe (requests (snd sb)) @ [probe_call (probe U)]"
    using upload_steps_probes[OF assms, of U "new_upload (stamp U) f" sb] by (simp add: st)
  then show ?thesis
    by (cases r) (simp_all add: uploadFile_def add_upload_toast_def st)
qed

lemma run_uploads_probes:
  assumes "isPersonaIdValid personaId" "list_all (\<lambda>f. \<not> too_large f) fs"
  shows "filter is_probe (requests (snd (snd (run_uploads personaId W i fs sb))))
     = filter is_probe (requests (snd sb)) @ map (\<lambda>k. probe_call (probe (W k))) [i..<i + length fs]"
  using assms(2)
proof (induction fs arbitrary: i sb)
  case Nil
  then show ?case by simp
next
  case (Cons f fs)
  obtain r sb1 where u: "uploadFile personaId (W i) f sb = (r, sb1)"
    by (cases "uploadFile personaId (W i) f sb")
  have one: "filter is_probe (requests (snd sb1))
     = filter is_probe (requests (snd sb)) @ [probe_call (probe (W i))]"
    using uploadFile_probes[OF _ assms(1), of f "W i" sb] Cons.prems by (simp add: u)
  have rest: "filter is_probe (requests (snd (snd (run_uploads personaId W (Suc i) fs sb1))))
     = filter is_probe (requests (snd sb1)) @ map (\<lambda>k. probe_call (probe (W k))) [Suc i..<Suc i + length fs]"
    using Cons.IH[of "Suc i" sb1] Cons.prems by simp
  have "[i..<i + length (f # fs)] = i # [Suc i..<i + length (f # fs)]"
    by (rule upt_conv_Cons) simp
  then have range: "[i..<i + length (f # fs)] = i # [Suc i..<Suc i + length fs]"
    by simp
  show ?case
    unfolding range using one rest by (simp add: u case_prod_beta)
qed


lemma drop_warned_backend [simp]: "snd (drop_warned fs sb) = snd sb"
proof -
  have "snd (foldl (\<lambda>acc f. add_upload_toast (g f) acc) sb xs) = snd sb" for g xs
    by (induction xs arbitrary: sb) (simp_all add: add_upload_toast_def case_prod_beta)
  then show ?thesis by (simp add: drop_warned_def)
qed



lemma drop_checked_probes:
  "filter is_probe (requests (snd (drop_checked D sb)))
       = filter is_probe (requests (snd sb))
         @ (if bucketChecked (fst sb) then [] else [probe_call (drop_probe D)])"
  using probe_requests[of "drop_probe D" sb] by (simp add: drop_checked_def)

lemma setIsUploading_backend [simp]: "snd (setIsUploading v sb) = snd sb"
  by (simp add: setIsUploading_def case_prod_beta)

lemma drop_listed_backend [simp]: "snd (drop_listed D valid sb) = snd sb"
  by (simp add: drop_listed_def case_prod_beta)

lemma drop_joined_backend [simp]: "snd (after_drop (drop_joined D (settled, sb))) = snd sb"
  by (cases sb)
     (simp add: drop_joined_def add_upload_toast_def split: prod.splits outcome.splits)

lemma validFiles_all: "list_all (\<lambda>f. \<not> too_large f) (validFiles fs)"
  by (simp add: validFiles_def list_all_iff)

lemma onDrop_probes:
  assumes "isPersonaIdValid personaId"
  shows "filter is_probe (requests (snd (after_drop (onDrop personaId D acceptedFiles sb))))
       = filter is_probe (requests (snd sb))
         @ (if bucketChecked (fst sb) then [] else [probe_call (drop_probe D)])
         @ map (\<lambda>i. probe_call (probe (file_world D i))) [0..<length (validFiles acceptedFiles)]"
proof (cases "validFiles acceptedFiles = []")
  case True
  then show ?thesis
    using assms by (simp add: onDrop_def Let_def drop_checked_probes)
next
  case False
  let ?start = "drop_listed D (validFiles acceptedFiles)
     (drop_warned acceptedFiles (setIsUploading True (drop_checked D sb)))"
  obtain settled sb5 where r:
    "run_uploads personaId (file_world D) 0 (validFiles acceptedFiles) ?start = (settled, sb5)"
    by (cases "run_uploads personaId (file_world D) 0 (validFiles acceptedFiles) ?start")
  have "filter is_probe (requests (snd sb5))
       = filter is_probe (requests (snd ?start))
         @ map (\<lambda>i. probe_call (probe (file_world D i))) [0..<length (validFiles acceptedFiles)]"
    using run_uploads_probes[OF assms validFiles_all, of "file_world D" 0 acceptedFiles ?start]
    by (simp add: r)
  then show ?thesis
    using assms False by (simp add: onDrop_def Let_def r drop_checked_probes)
qed


subsection \<open>The probe is run for every file\<close>

lemma example_persona_valid: "isPersonaIdValid example_persona"
  by (simp add: isPersonaIdValid_def isValidUUID_def example_persona_def is_hex_def)

lemma note_file_valid: "validFiles [note_file] = [note_file]" "validFiles [big_file] = []"
  "validFiles [note_file, big_file, note_file] = [note_file, note_file]"
  "too_large big_file" "\<not> too_large note_file"
  by (simp_all add: validFiles_def too_large_def note_file_def big_file_def)

text \<open>
  Claim C4, as amended. With a valid persona, a drop issues the probes the log already held,
  then the handler's own probe if and only if no probe result is cached
  (\<open>bucketChecked\<close> is false), then one probe for every file of the batch that passes the
  size filter: \<open>uploadFile\<close> runs the probe again before each transfer. A manual retry, a
  call of \<open>checkAndCreateBucket\<close>, issues one probe.
\<close>

theorem every_valid_file_runs_the_probe:
  assumes "isPersonaIdValid personaId"
  shows "filter is_probe (requests (snd (after_drop (onDrop personaId D acceptedFiles sb))))
       = filter is_probe (requests (snd sb))
         @ (if bucketChecked (fst sb) then [] else [probe_call (drop_probe D)])
         @ map (\<lambda>i. probe_call (probe (file_world D i))) [0..<length (validFiles acceptedFiles)] \<and>
       filter is_probe (requests (snd (snd (checkAndCreateBucket P sb))))
       = filter is_probe (requests (snd sb)) @ [probe_call P]"
  using onDrop_probes[OF assms] probe_requests by simp

text \<open>Two valid files and an oversized one, dropped when a probe result is cached: two probes.\<close>

theorem every_valid_file_runs_the_probe_witness:
  "isPersonaIdValid example_persona \<and>
   length (filter is_probe (requests (snd (after_drop
     (onDrop example_persona obliging_drop [note_file, big_file, note_file]
        (probed_upload_state, empty_backend)))))) = 2"
  using every_valid_file_runs_the_probe[OF example_persona_valid, of obliging_drop
      "[note_file, big_file, note_file]" "(probed_upload_state, empty_backend)"]
    example_persona_valid
  by (simp add: note_file_valid probed_upload_state_def empty_backend_def)

text \<open>
  Claim C4 as stated fails: in a session whose probe result is cached (checked, no error),
  dropping one small file runs the probe again, without any manual retry.
\<close>

theorem cached_probe_is_run_again_counterexample:
  "bucketChecked probed_upload_state \<and> bucketError probed_upload_state = None \<and>
   filter is_probe (requests (snd (after_drop
     (onDrop example_persona obliging_drop [note_file] (probed_upload_state, empty_backend)))))
   = [StorageUpload ''persona-content'' ''test-1700000000000.txt'' (Blob ''test'')]"
  using onDrop_probes[OF example_persona_valid, of obliging_drop "[note_file]"
      "(probed_upload_state, empty_backend)"]
  by (simp add: note_file_valid probed_upload_state_def fresh_upload_state_def empty_backend_def
      obliging_drop_def obliging_upload_def obliging_probe_def probe_call_def)


subsection \<open>Oversized files\<close>

lemma same_but_toasts_refl [simp]: "same_but_toasts sb sb"
  by (simp add: same_but_toasts_def)

lemma same_but_toasts_sym: "same_but_toasts sb sb' \<Longrightarrow> same_but_toasts sb' sb"
  by (simp add: same_but_toasts_def)

lemma same_but_toasts_trans:
  "same_but_toasts a b \<Longrightarrow> same_but_toasts b c \<Longrightarrow> same_but_toasts a c"
  by (simp add: same_but_toasts_def)









lemma validFiles_Nil [simp]: "validFiles [] = []"
  by (simp add: validFiles_def)

lemma drop_warned_Nil [simp]: "drop_warned [] sb = sb"
  by (simp add: drop_warned_def)


lemma validFiles_idem [simp]: "validFiles (validFiles fs) = validFiles fs"
  by (simp add: validFiles_def)

lemma drop_warned_valid [simp]: "drop_warned (validFiles fs) sb = sb"
  by (simp add: drop_warned_def validFiles_def)








subsection \<open>The uploading indicator\<close>











subsection \<open>From the upload to the training pipeline\<close>

text \<open>
  Claim C1, on a concrete upload. A small text file is uploaded with every request carried
  out: the upload resolves with status processing, its record is inserted into the table
  named \<^verbatim>\<open>persona-content\<close>, the table \<^verbatim>\<open>persona_content\<close> that the pipeline reads
  stays empty, and the data-gathering step of the pipeline finds nothing, also after the
  processing status of the inserted record is set to completed.
\<close>

theorem uploaded_record_is_not_selected_by_training:
  "fst (uploadFile example_persona obliging_upload note_file (probed_upload_state, empty_backend))
     = Resolved ((new_upload ''1700000000001'' note_file)
         \<lparr>uf_url := ''https://storage.example/persona-content/note'', uf_status := InProcessing,
          uf_progress := 50\<rparr>) \<and>
   tables (snd (snd (uploadFile example_persona obliging_upload note_file
        (probed_upload_state, empty_backend)))) ''persona-content''
     = [dbPayload example_persona obliging_upload note_file] \<and>
   tables (snd (snd (uploadFile example_persona obliging_upload note_file
        (probed_upload_state, empty_backend)))) ''persona_content'' = [] \<and>
   fst (gatherTrainingData obliging_env example_persona
          ((), snd (snd (uploadFile example_persona obliging_upload note_file
                 (probed_upload_state, empty_backend)))))
     = Inr \<lparr>td_text = [], td_audio = [], td_video = [], td_images = []\<rparr> \<and>
   fst (gatherTrainingData obliging_env example_persona
          ((), issue Done
                 (DbUpdate ''persona-content'' [(''processing_status'', JStr ''completed'')]
                    [(''persona_id'', JStr example_persona)])
                 (snd (snd (uploadFile example_persona obliging_upload note_file
                    (probed_upload_state, empty_backend))))))
     = Inr \<lparr>td_text = [], td_audio = [], td_video = [], td_images = []\<rparr>"
proof -
  have steps: "upload_steps example_persona obliging_upload note_file
      (new_upload (stamp obliging_upload) note_file) (probed_upload_state, empty_backend)
    = (Inr (), (new_upload ''1700000000001'' note_file)
         \<lparr>uf_url := ''https://storage.example/persona-content/note'', uf_status := InProcessing,
          uf_progress := 50\<rparr>,
       (probed_upload_state\<lparr>bucketChecked := False, bucketError := None, bucketChecked := True\<rparr>,
        \<lparr>tables = (\<lambda>t. [])(''persona-content'' := [dbPayload example_persona obliging_upload note_file]),
         requests = [probe_call obliging_probe,
                     StorageRemove ''persona-content'' [''test-1700000000000.txt''],
                     StorageUpload ''persona-content'' ''1700000000001-note.txt'' (FileBody note_file),
                     DbInsert ''persona-content'' (dbPayload example_persona obliging_upload note_file)]\<rparr>))"
    using example_persona_valid note_file_valid(5)
    by (simp add: upload_steps_def too_large_def isPersonaIdValid_def checkAndCreateBucket_def
        Let_def issue_def issue_insert_def obliging_upload_def obliging_probe_def empty_backend_def
        probe_call_def new_upload_def sanitize_def)
       (simp add: note_file_def)
  show ?thesis
    by (simp add: uploadFile_def steps gatherTrainingData_def send_def issue_def Let_def
        obliging_env_def db_select_def)
qed

section \<open>Properties of the Conversation Session\<close>

text \<open>
  Claim C10. With no engine loaded, a conversation open (its identifier is set and not the
  empty string, which the guard treats as unset), a message that is not blank and a
  first insert whose promise does not reject, \<open>sendMessage\<close> appends the user's message and
  a persona message whose content is the fixed fallback string, issues one insert into the
  message table for each of the two, in this order, and clears the typing indicator; when
  the backend carries out both inserts, both rows are in the table.
\<close>

theorem untrained_reply_is_the_fallback:
  assumes "aiEngine s = None" and "conversationId s = Some cid" and "cid \<noteq> []"
    and "\<not> is_blank (inputMessage s)" and "\<forall>e. user_insert W \<noteq> Thrown e"
  shows "messages (fst (sendMessage W (s, b)))
           = messages s @
             [\<lparr>msg_id = user_stamp W, sender_type = User, content = inputMessage s,
               timestamp = user_time W, message_type = ''text''\<rparr>,
              \<lparr>msg_id = persona_stamp W, sender_type = Persona, content = fallback_reply,
               timestamp = persona_time W, message_type = ''text''\<rparr>] \<and>
         requests (snd (sendMessage W (s, b)))
           = requests b @
             [DbInsert ''messages'' (message_row cid ''user'' (inputMessage s)),
              DbInsert ''messages'' (message_row cid ''persona'' fallback_reply)] \<and>
         (user_insert W = Done \<and> persona_insert W = Done \<longrightarrow>
            tables (snd (sendMessage W (s, b))) ''messages''
              = tables b ''messages'' @
                [message_row cid ''user'' (inputMessage s),
                 message_row cid ''persona'' fallback_reply]) \<and>
         \<not> isTyping (fst (sendMessage W (s, b)))"
  using assms
  by (cases "user_insert W")
     (simp_all add: sendMessage_def generatePersonaResponse_def Let_def issue_def)

text \<open>Sending hello in a conversation without an engine.\<close>

theorem untrained_reply_is_the_fallback_witness:
  "map content (messages (fst (sendMessage obliging_send (untrained_chat, empty_backend))))
     = [''hello'', fallback_reply] \<and>
   map (\<lambda>r. col r ''content'')
     (tables (snd (sendMessage obliging_send (untrained_chat, empty_backend))) ''messages'')
     = [JStr ''hello'', JStr fallback_reply]"
proof -
  have h: "aiEngine untrained_chat = None" "conversationId untrained_chat = Some ''c1''"
    "''c1'' \<noteq> []" "\<not> is_blank (inputMessage untrained_chat)" "\<forall>e. user_insert obliging_send \<noteq> Thrown e"
    "user_insert obliging_send = Done" "persona_insert obliging_send = Done"
    "inputMessage untrained_chat = ''hello''" "messages untrained_chat = []"
    by (simp_all add: untrained_chat_def obliging_send_def is_blank_def)
  show ?thesis
    using untrained_reply_is_the_fallback[OF h(1-5), of empty_backend] h(6-9)
    by (simp add: empty_backend_def message_row_def col_def)
qed

end
